theory Spec2Isabelle
  imports Main "HOL-Library.Word" "HOL-Library.AList"
begin

unbundle bit_operations_syntax

section \<open>Common types (pkg/types/types.go)\<close>

type_synonym byte = "8 word"
type_synonym PageID = "32 word"
type_synonym TxnID = "64 word"
type_synonym LSN = "64 word"
type_synonym CommandID = "32 word"

definition InvalidPageID :: PageID where
  "InvalidPageID = 0xFFFFFFFF"

definition InvalidTxnID :: TxnID where
  "InvalidTxnID = 0"

definition InvalidLSN :: LSN where
  "InvalidLSN = 0"

definition MaxTxnID :: TxnID where
  "MaxTxnID = - 1"

text \<open>The tuple header of \<^verbatim>\<open>types.Tuple\<close>: creating and deleting transaction, command id,
  table id, row id and the row bytes.\<close>

record Tuple =
  XMin :: TxnID
  XMax :: TxnID
  Cid :: CommandID
  TableID :: "32 word"
  RowID :: "64 word"
  Data :: "byte list"

section \<open>Snapshots and visibility (internal/txn/mvcc.go)\<close>

text \<open>\<^verbatim>\<open>ActiveTxns\<close> is a Go \<^verbatim>\<open>map[TxnID]bool\<close>: reading a missing key gives false.\<close>

record Snapshot =
  Xmin :: TxnID
  Xmax :: TxnID
  ActiveTxns :: "TxnID \<rightharpoonup> bool"

definition map_bool_get :: "('k \<rightharpoonup> bool) \<Rightarrow> 'k \<Rightarrow> bool" where
  "map_bool_get m k = (case m k of None \<Rightarrow> False | Some b \<Rightarrow> b)"

definition isTxnVisible :: "Snapshot \<Rightarrow> TxnID \<Rightarrow> bool" where
  "isTxnVisible s txnID =
     (if txnID = InvalidTxnID then False
      else if txnID \<ge> Xmax s then False
      else if map_bool_get (ActiveTxns s) txnID then False
      else True)"

definition IsVisible :: "Snapshot \<Rightarrow> Tuple \<Rightarrow> bool" where
  "IsVisible s tuple =
     (if \<not> isTxnVisible s (XMin tuple) then False
      else if XMax tuple = InvalidTxnID then True
      else if isTxnVisible s (XMax tuple) then False
      else True)"

text \<open>The active set of a snapshot: the transaction ids the map sends to true.\<close>

definition active_set :: "Snapshot \<Rightarrow> TxnID set" where
  "active_set s = {t. ActiveTxns s t = Some True}"

section \<open>Errors\<close>

text \<open>Every error return and every run-time panic of the modelled Go code is a value.
  \<^verbatim>\<open>ErrPanic\<close> stands for a Go run-time panic (a slice or index out of range).\<close>

datatype error =
    ErrPageFull
  | ErrSlotNotFound
  | ErrPanic
  | ErrPageDoesNotExist
  | ErrAllPinned
  | ErrTupleHeader
  | ErrTupleData
  | ErrCallback

section \<open>Byte buffers (encoding/binary, copy)\<close>

text \<open>\<^verbatim>\<open>copy(dst[pos:], src)\<close>: the bytes of \<open>src\<close> that fit overwrite \<open>dst\<close> from
  \<open>pos\<close> on; the length of \<open>dst\<close> never changes.\<close>

definition copy_at :: "byte list \<Rightarrow> nat \<Rightarrow> byte list \<Rightarrow> byte list" where
  "copy_at dst pos src =
     take pos dst @ take (length dst - pos) src @ drop (pos + length src) dst"

text \<open>\<^verbatim>\<open>buf[lo:hi]\<close> for \<open>lo \<le> hi \<le> length buf\<close> (the callers check the bounds).\<close>

definition slice :: "byte list \<Rightarrow> nat \<Rightarrow> nat \<Rightarrow> byte list" where
  "slice buf lo hi = take (hi - lo) (drop lo buf)"

definition le16 :: "16 word \<Rightarrow> byte list" where
  "le16 v = [ucast v, ucast (drop_bit 8 v)]"

definition le32 :: "32 word \<Rightarrow> byte list" where
  "le32 v = [ucast v, ucast (drop_bit 8 v), ucast (drop_bit 16 v), ucast (drop_bit 24 v)]"

definition le64 :: "64 word \<Rightarrow> byte list" where
  "le64 v = [ucast v, ucast (drop_bit 8 v), ucast (drop_bit 16 v), ucast (drop_bit 24 v),
             ucast (drop_bit 32 v), ucast (drop_bit 40 v), ucast (drop_bit 48 v),
             ucast (drop_bit 56 v)]"


text \<open>\<^verbatim>\<open>binary.LittleEndian.Uint16/32/64(buf[pos:])\<close>.\<close>

definition get_le16 :: "byte list \<Rightarrow> nat \<Rightarrow> 16 word" where
  "get_le16 buf pos = ucast (buf ! pos) OR push_bit 8 (ucast (buf ! (pos + 1)))"

definition get_le32 :: "byte list \<Rightarrow> nat \<Rightarrow> 32 word" where
  "get_le32 buf pos =
     ucast (buf ! pos) OR push_bit 8 (ucast (buf ! (pos + 1))) OR
     push_bit 16 (ucast (buf ! (pos + 2))) OR push_bit 24 (ucast (buf ! (pos + 3)))"

definition get_le64 :: "byte list \<Rightarrow> nat \<Rightarrow> 64 word" where
  "get_le64 buf pos =
     ucast (buf ! pos) OR push_bit 8 (ucast (buf ! (pos + 1))) OR
     push_bit 16 (ucast (buf ! (pos + 2))) OR push_bit 24 (ucast (buf ! (pos + 3))) OR
     push_bit 32 (ucast (buf ! (pos + 4))) OR push_bit 40 (ucast (buf ! (pos + 5))) OR
     push_bit 48 (ucast (buf ! (pos + 6))) OR push_bit 56 (ucast (buf ! (pos + 7)))"


section \<open>Tuple codec (pkg/types/types.go)\<close>

text \<open>\<^verbatim>\<open>Tuple.Serialize\<close>: XMin(8) XMax(8) Cid(4) TableID(4) RowID(8) DataLen(4) Data, all
  little-endian.\<close>

definition Serialize :: "Tuple \<Rightarrow> byte list" where
  "Serialize t =
     le64 (XMin t) @ le64 (XMax t) @ le32 (Cid t) @ le32 (TableID t) @ le64 (RowID t) @
     le32 (of_nat (length (Data t))) @ Data t"

definition DeserializeTuple :: "byte list \<Rightarrow> error + Tuple" where
  "DeserializeTuple buf =
     (if length buf < 36 then Inl ErrTupleHeader
      else
        let dataLen = get_le32 buf 32 in
        if length buf < 36 + unat dataLen then Inl ErrTupleData
        else Inr \<lparr>XMin = get_le64 buf 0, XMax = get_le64 buf 8, Cid = get_le32 buf 16,
                  TableID = get_le32 buf 20, RowID = get_le64 buf 24,
                  Data = slice buf 36 (36 + unat dataLen)\<rparr>)"

section \<open>Slotted page (internal/storage/page.go)\<close>

definition PageSize :: nat where
  "PageSize = 4096"

definition PageHeaderSize :: nat where
  "PageHeaderSize = 28"

definition slotSize :: nat where
  "slotSize = 4"

definition PageTypeData :: "8 word" where
  "PageTypeData = 1"

definition PageTypeBTree :: "8 word" where
  "PageTypeBTree = 2"

text \<open>\<^verbatim>\<open>storage.Page\<close>. The field \<^verbatim>\<open>Data [PageSize]byte\<close> is \<open>PageData\<close> here (\<open>Data\<close> is
  the tuple's field); it always holds \<open>PageSize\<close> bytes.\<close>

record Page =
  ID :: PageID
  Type :: "8 word"
  LSN :: LSN
  NextPageID :: PageID
  IsDirty :: bool
  PinCount :: int
  PageData :: "byte list"

definition init :: "Page \<Rightarrow> Page" where
  "init p =
     (let d0 = replicate PageSize (0 :: byte);
          d1 = copy_at d0 0 (le32 (ID p));
          d2 = copy_at d1 4 [Type p];
          d3 = copy_at d2 8 (le64 (LSN p));
          d4 = copy_at d3 16 (le16 0);
          d5 = copy_at d4 18 (le16 (of_nat PageHeaderSize));
          d6 = copy_at d5 20 (le16 (of_nat PageSize));
          d7 = copy_at d6 22 (le32 InvalidPageID)
      in p\<lparr>NextPageID := InvalidPageID, PageData := d7\<rparr>)"

definition NewPage :: "PageID \<Rightarrow> 8 word \<Rightarrow> Page" where
  "NewPage pid pageType =
     init \<lparr>ID = pid, Type = pageType, LSN = 0, NextPageID = 0, IsDirty = False, PinCount = 0,
           PageData = replicate PageSize 0\<rparr>"

definition GetSlotCount :: "Page \<Rightarrow> 16 word" where
  "GetSlotCount p = get_le16 (PageData p) 16"

definition setSlotCount :: "Page \<Rightarrow> 16 word \<Rightarrow> Page" where
  "setSlotCount p count = p\<lparr>PageData := copy_at (PageData p) 16 (le16 count)\<rparr>"

definition GetFreeSpaceOffset :: "Page \<Rightarrow> 16 word" where
  "GetFreeSpaceOffset p = get_le16 (PageData p) 18"

definition setFreeSpaceOffset :: "Page \<Rightarrow> 16 word \<Rightarrow> Page" where
  "setFreeSpaceOffset p off = p\<lparr>PageData := copy_at (PageData p) 18 (le16 off)\<rparr>"

definition GetFreeSpaceEnd :: "Page \<Rightarrow> 16 word" where
  "GetFreeSpaceEnd p = get_le16 (PageData p) 20"

definition setFreeSpaceEnd :: "Page \<Rightarrow> 16 word \<Rightarrow> Page" where
  "setFreeSpaceEnd p e = p\<lparr>PageData := copy_at (PageData p) 20 (le16 e)\<rparr>"

definition SetLSN :: "Page \<Rightarrow> LSN \<Rightarrow> Page" where
  "SetLSN p lsn = p\<lparr>LSN := lsn, PageData := copy_at (PageData p) 8 (le64 lsn)\<rparr>"

definition GetLSN :: "Page \<Rightarrow> LSN" where
  "GetLSN p = get_le64 (PageData p) 8"

definition GetNextPageID :: "Page \<Rightarrow> PageID" where
  "GetNextPageID p = get_le32 (PageData p) 22"

definition SetNextPageID :: "Page \<Rightarrow> PageID \<Rightarrow> Page" where
  "SetNextPageID p nextID =
     p\<lparr>NextPageID := nextID, PageData := copy_at (PageData p) 22 (le32 nextID), IsDirty := True\<rparr>"

text \<open>The slot directory entry of slot \<open>slotNum\<close> lies at
  \<^verbatim>\<open>PageSize - (int(slotNum)+1)*slotSize\<close>; a negative position makes the slice expression
  panic.\<close>

definition slotPos :: "16 word \<Rightarrow> int" where
  "slotPos slotNum = int PageSize - (int (unat slotNum) + 1) * int slotSize"

definition getSlot :: "Page \<Rightarrow> 16 word \<Rightarrow> error + (16 word \<times> 16 word)" where
  "getSlot p slotNum =
     (if slotPos slotNum < 0 then Inl ErrPanic
      else Inr (get_le16 (PageData p) (nat (slotPos slotNum)),
                get_le16 (PageData p) (nat (slotPos slotNum) + 2)))"

definition setSlot :: "Page \<Rightarrow> 16 word \<Rightarrow> 16 word \<Rightarrow> 16 word \<Rightarrow> error + Page" where
  "setSlot p slotNum off len =
     (if slotPos slotNum < 0 then Inl ErrPanic
      else Inr (p\<lparr>PageData :=
                  copy_at (copy_at (PageData p) (nat (slotPos slotNum)) (le16 off))
                    (nat (slotPos slotNum) + 2) (le16 len)\<rparr>))"

definition FreeSpace :: "Page \<Rightarrow> int" where
  "FreeSpace p = int (unat (GetFreeSpaceEnd p)) - int (unat (GetFreeSpaceOffset p)) - int slotSize"

text \<open>\<^verbatim>\<open>InsertTuple\<close>. The slice \<^verbatim>\<open>p.Data[newEnd:freeEnd]\<close> panics unless
  \<open>newEnd \<le> freeEnd \<le> PageSize\<close>; \<^verbatim>\<open>uint16(dataLen)\<close> truncates.\<close>

definition InsertTuple :: "Page \<Rightarrow> byte list \<Rightarrow> error + (Page \<times> 16 word)" where
  "InsertTuple p data =
     (if FreeSpace p < int (length data) then Inl ErrPageFull
      else
        let freeEnd = GetFreeSpaceEnd p;
            newEnd = freeEnd - of_nat (length data);
            p1 = setFreeSpaceEnd p newEnd
        in if unat freeEnd < unat newEnd \<or> PageSize < unat freeEnd then Inl ErrPanic
           else
             let p2 = p1\<lparr>PageData := copy_at (PageData p1) (unat newEnd)
                                       (take (unat freeEnd - unat newEnd) data)\<rparr>;
                 slotNum = GetSlotCount p2
             in (case setSlot p2 slotNum newEnd (of_nat (length data)) of
                   Inl e \<Rightarrow> Inl e
                 | Inr p3 \<Rightarrow> Inr ((setSlotCount p3 (slotNum + 1))\<lparr>IsDirty := True\<rparr>, slotNum)))"

text \<open>\<^verbatim>\<open>GetTuple\<close>. \<^verbatim>\<open>offset+length\<close> is computed in uint16; the slice
  \<^verbatim>\<open>p.Data[offset:offset+length]\<close> panics unless \<open>offset \<le> offset+length \<le> PageSize\<close>.\<close>

definition GetTuple :: "Page \<Rightarrow> 16 word \<Rightarrow> error + byte list" where
  "GetTuple p slotNum =
     (if slotNum \<ge> GetSlotCount p then Inl ErrSlotNotFound
      else
        (case getSlot p slotNum of
           Inl e \<Rightarrow> Inl e
         | Inr (off, len) \<Rightarrow>
             if len = 0 then Inl ErrSlotNotFound
             else if unat (off + len) < unat off \<or> PageSize < unat (off + len) then Inl ErrPanic
             else Inr (slice (PageData p) (unat off) (unat (off + len)))))"

definition UpdateTuple :: "Page \<Rightarrow> 16 word \<Rightarrow> byte list \<Rightarrow> error + Page" where
  "UpdateTuple p slotNum data =
     (if slotNum \<ge> GetSlotCount p then Inl ErrSlotNotFound
      else
        (case getSlot p slotNum of
           Inl e \<Rightarrow> Inl e
         | Inr (off, oldLen) \<Rightarrow>
             let newLen = (of_nat (length data) :: 16 word) in
             if newLen \<le> oldLen then
               (if PageSize < unat off then Inl ErrPanic
                else
                  (case setSlot (p\<lparr>PageData := copy_at (PageData p) (unat off) data\<rparr>)
                          slotNum off newLen of
                     Inl e \<Rightarrow> Inl e
                   | Inr p1 \<Rightarrow> Inr (p1\<lparr>IsDirty := True\<rparr>)))
             else if FreeSpace p < int (unat newLen) then Inl ErrPageFull
             else
               (case setSlot p slotNum off 0 of
                  Inl e \<Rightarrow> Inl e
                | Inr p1 \<Rightarrow>
                    let freeEnd = GetFreeSpaceEnd p1;
                        newEnd = freeEnd - newLen;
                        p2 = setFreeSpaceEnd p1 newEnd
                    in if unat freeEnd < unat newEnd \<or> PageSize < unat freeEnd then Inl ErrPanic
                       else
                         (case setSlot (p2\<lparr>PageData := copy_at (PageData p2) (unat newEnd)
                                   (take (unat freeEnd - unat newEnd) data)\<rparr>) slotNum newEnd newLen of
                            Inl e \<Rightarrow> Inl e
                          | Inr p3 \<Rightarrow> Inr (p3\<lparr>IsDirty := True\<rparr>)))))"

definition DeleteTuple :: "Page \<Rightarrow> 16 word \<Rightarrow> error + Page" where
  "DeleteTuple p slotNum =
     (if slotNum \<ge> GetSlotCount p then Inl ErrSlotNotFound
      else
        (case getSlot p slotNum of
           Inl e \<Rightarrow> Inl e
         | Inr (off, len) \<Rightarrow>
             (case setSlot p slotNum off 0 of
                Inl e \<Rightarrow> Inl e
              | Inr p1 \<Rightarrow> Inr (p1\<lparr>IsDirty := True\<rparr>))))"

text \<open>\<^verbatim>\<open>GetAllTuples\<close>: the loop over the slot numbers \<open>0 .. count-1\<close>, here over the list
  of the slot numbers still to visit.\<close>

fun GetAllTuples_loop :: "Page \<Rightarrow> nat list \<Rightarrow> error + (16 word \<times> byte list) list" where
  "GetAllTuples_loop p [] = Inr []"
| "GetAllTuples_loop p (i # is) =
     (case getSlot p (of_nat i) of
        Inl e \<Rightarrow> Inl e
      | Inr (off, len) \<Rightarrow>
          if len > 0 then
            (if unat (off + len) < unat off \<or> PageSize < unat (off + len) then Inl ErrPanic
             else
               (case GetAllTuples_loop p is of
                  Inl e \<Rightarrow> Inl e
                | Inr ts \<Rightarrow> Inr ((of_nat i, slice (PageData p) (unat off) (unat (off + len))) # ts)))
          else GetAllTuples_loop p is)"

definition GetAllTuples :: "Page \<Rightarrow> error + (16 word \<times> byte list) list" where
  "GetAllTuples p = GetAllTuples_loop p [0 ..< unat (GetSlotCount p)]"

definition Page_Serialize :: "Page \<Rightarrow> byte list" where
  "Page_Serialize p = PageData p"

text \<open>\<^verbatim>\<open>Deserialize\<close> into a fresh \<^verbatim>\<open>&Page{}\<close>, as \<^verbatim>\<open>ReadPage\<close> calls it.\<close>

definition Page_Deserialize :: "byte list \<Rightarrow> Page" where
  "Page_Deserialize data =
     (let d = copy_at (replicate PageSize 0) 0 data
      in \<lparr>ID = get_le32 d 0, Type = d ! 4, LSN = get_le64 d 8, NextPageID = get_le32 d 22,
          IsDirty = False, PinCount = 0, PageData = d\<rparr>)"

section \<open>Disk manager (internal/storage/disk.go)\<close>

text \<open>The data file: the page count of its header and the page images written so far, by
  page id (\<^verbatim>\<open>pageOffset\<close> gives distinct ids disjoint regions). Failures of the operating
  system's reads and writes are outside the model.\<close>

record DiskManager =
  numPages :: "32 word"
  file_pages :: "PageID \<rightharpoonup> byte list"

definition ReadPage :: "DiskManager \<Rightarrow> PageID \<Rightarrow> error + Page" where
  "ReadPage dm pageID =
     (if pageID \<ge> numPages dm then Inl ErrPageDoesNotExist
      else
        (case file_pages dm pageID of
           None \<Rightarrow> Inl ErrPageDoesNotExist
         | Some data \<Rightarrow> Inr (Page_Deserialize data)))"

definition WritePage :: "DiskManager \<Rightarrow> Page \<Rightarrow> DiskManager" where
  "WritePage dm page = dm\<lparr>file_pages := (file_pages dm)(ID page \<mapsto> Page_Serialize page)\<rparr>"

definition AllocatePage :: "DiskManager \<Rightarrow> DiskManager \<times> PageID" where
  "AllocatePage dm =
     (let pageID = numPages dm
      in (dm\<lparr>numPages := numPages dm + 1,
              file_pages := (file_pages dm)(pageID \<mapsto> Page_Serialize (NewPage pageID PageTypeData))\<rparr>,
          pageID))"

section \<open>Buffer pool (internal/storage/buffer.go)\<close>

text \<open>The cache \<^verbatim>\<open>pages\<close> is an association list with one entry per cached page id; the
  LRU list has its most recently used page first. The buffer pool owns its disk manager
  and holds no reference to the write-ahead log.\<close>

record BufferPool =
  diskManager :: DiskManager
  pages :: "(PageID \<times> Page) list"
  capacity :: int
  lruList :: "PageID list"
  hits :: "64 word"
  misses :: "64 word"

definition NewBufferPool :: "DiskManager \<Rightarrow> int \<Rightarrow> BufferPool" where
  "NewBufferPool dm cap =
     \<lparr>diskManager = dm, pages = [], capacity = cap, lruList = [], hits = 0, misses = 0\<rparr>"

definition addToLRU :: "BufferPool \<Rightarrow> PageID \<Rightarrow> BufferPool" where
  "addToLRU bp pageID = bp\<lparr>lruList := pageID # lruList bp\<rparr>"

definition touchLRU :: "BufferPool \<Rightarrow> PageID \<Rightarrow> BufferPool" where
  "touchLRU bp pageID =
     (if pageID \<in> set (lruList bp) then bp\<lparr>lruList := pageID # remove1 pageID (lruList bp)\<rparr>
      else bp)"

text \<open>\<^verbatim>\<open>evictOne\<close>: from the back of the LRU list, the first page with pin count 0 is
  written to disk if dirty and dropped from the cache. A listed page that is not cached is a
  nil dereference.\<close>

fun evict_scan :: "BufferPool \<Rightarrow> PageID list \<Rightarrow> error + BufferPool" where
  "evict_scan bp [] = Inl ErrAllPinned"
| "evict_scan bp (pageID # rest) =
     (case map_of (pages bp) pageID of
        None \<Rightarrow> Inl ErrPanic
      | Some page \<Rightarrow>
          if PinCount page = 0 then
            Inr (bp\<lparr>diskManager :=
                      (if IsDirty page then WritePage (diskManager bp) page else diskManager bp),
                    pages := AList.delete pageID (pages bp),
                    lruList := rev (remove1 pageID (rev (lruList bp)))\<rparr>)
          else evict_scan bp rest)"

definition evictOne :: "BufferPool \<Rightarrow> error + BufferPool" where
  "evictOne bp = evict_scan bp (rev (lruList bp))"

text \<open>\<^verbatim>\<open>FetchPage\<close> returns the cached page; the caller's pointer aliases the cache entry,
  so the model's callers store the page they changed back with \<open>store_page\<close>.\<close>

definition store_page :: "BufferPool \<Rightarrow> PageID \<Rightarrow> Page \<Rightarrow> BufferPool" where
  "store_page bp pageID page = bp\<lparr>pages := AList.update pageID page (pages bp)\<rparr>"

definition FetchPage :: "BufferPool \<Rightarrow> PageID \<Rightarrow> BufferPool \<times> (error + Page)" where
  "FetchPage bp pageID =
     (case map_of (pages bp) pageID of
        Some page \<Rightarrow>
          let bp1 = touchLRU (bp\<lparr>hits := hits bp + 1\<rparr>) pageID;
              page1 = page\<lparr>PinCount := PinCount page + 1\<rparr>
          in (store_page bp1 pageID page1, Inr page1)
      | None \<Rightarrow>
          let bp1 = bp\<lparr>misses := misses bp + 1\<rparr> in
          (case ReadPage (diskManager bp1) pageID of
             Inl e \<Rightarrow> (bp1, Inl e)
           | Inr page \<Rightarrow>
               (case (if int (length (pages bp1)) \<ge> capacity bp1 then evictOne bp1 else Inr bp1) of
                  Inl e \<Rightarrow> (bp1, Inl e)
                | Inr bp2 \<Rightarrow>
                    let page1 = page\<lparr>PinCount := 1\<rparr>
                    in (addToLRU (store_page bp2 pageID page1) pageID, Inr page1))))"

definition BufferPool_NewPage :: "BufferPool \<Rightarrow> 8 word \<Rightarrow> BufferPool \<times> (error + Page)" where
  "BufferPool_NewPage bp pageType =
     (case AllocatePage (diskManager bp) of
        (dm1, pageID) \<Rightarrow>
          let bp1 = bp\<lparr>diskManager := dm1\<rparr> in
          (case (if int (length (pages bp1)) \<ge> capacity bp1 then evictOne bp1 else Inr bp1) of
             Inl e \<Rightarrow> (bp1, Inl e)
           | Inr bp2 \<Rightarrow>
               let page = (NewPage pageID pageType)\<lparr>IsDirty := True, PinCount := 1\<rparr>
               in (addToLRU (store_page bp2 pageID page) pageID, Inr page)))"

definition UnpinPage :: "BufferPool \<Rightarrow> PageID \<Rightarrow> bool \<Rightarrow> BufferPool" where
  "UnpinPage bp pageID isDirty =
     (case map_of (pages bp) pageID of
        None \<Rightarrow> bp
      | Some page \<Rightarrow>
          let page1 = (if isDirty then page\<lparr>IsDirty := True\<rparr> else page);
              page2 = (if PinCount page1 > 0 then page1\<lparr>PinCount := PinCount page1 - 1\<rparr> else page1)
          in store_page bp pageID page2)"

definition FlushPage :: "BufferPool \<Rightarrow> PageID \<Rightarrow> BufferPool" where
  "FlushPage bp pageID =
     (case map_of (pages bp) pageID of
        None \<Rightarrow> bp
      | Some page \<Rightarrow>
          if IsDirty page then
            store_page (bp\<lparr>diskManager := WritePage (diskManager bp) page\<rparr>) pageID
              (page\<lparr>IsDirty := False\<rparr>)
          else bp)"

text \<open>\<^verbatim>\<open>FlushAllPages\<close>: every cached dirty page is written and marked clean.\<close>

fun flush_each :: "DiskManager \<Rightarrow> (PageID \<times> Page) list \<Rightarrow> DiskManager \<times> (PageID \<times> Page) list" where
  "flush_each dm [] = (dm, [])"
| "flush_each dm ((pageID, page) # rest) =
     (if IsDirty page then
        (case flush_each (WritePage dm page) rest of
           (dm1, rest1) \<Rightarrow> (dm1, (pageID, page\<lparr>IsDirty := False\<rparr>) # rest1))
      else
        (case flush_each dm rest of
           (dm1, rest1) \<Rightarrow> (dm1, (pageID, page) # rest1)))"

definition FlushAllPages :: "BufferPool \<Rightarrow> BufferPool" where
  "FlushAllPages bp =
     (case flush_each (diskManager bp) (pages bp) of
        (dm1, pages1) \<Rightarrow> bp\<lparr>diskManager := dm1, pages := pages1\<rparr>)"

definition SetPageLSN :: "BufferPool \<Rightarrow> PageID \<Rightarrow> LSN \<Rightarrow> BufferPool" where
  "SetPageLSN bp pageID lsn =
     (case map_of (pages bp) pageID of
        None \<Rightarrow> bp
      | Some page \<Rightarrow> store_page bp pageID ((SetLSN page lsn)\<lparr>IsDirty := True\<rparr>))"

definition GetPageLSN :: "BufferPool \<Rightarrow> PageID \<Rightarrow> LSN" where
  "GetPageLSN bp pageID =
     (case map_of (pages bp) pageID of
        None \<Rightarrow> InvalidLSN
      | Some page \<Rightarrow> GetLSN page)"

section \<open>Table heap (internal/storage/heap.go)\<close>

record TableHeap =
  tableID :: "32 word"
  firstPage :: PageID
  lastPage :: PageID

record TupleWithRID =
  Tuple_of :: Tuple
  PageID_of :: PageID
  SlotNum_of :: "16 word"

definition NewTableHeap :: "BufferPool \<Rightarrow> 32 word \<Rightarrow> BufferPool \<times> (error + TableHeap)" where
  "NewTableHeap bp tid =
     (case BufferPool_NewPage bp PageTypeData of
        (bp1, Inl e) \<Rightarrow> (bp1, Inl e)
      | (bp1, Inr page) \<Rightarrow>
          (UnpinPage bp1 (ID page) True,
           Inr \<lparr>tableID = tid, firstPage = ID page, lastPage = ID page\<rparr>))"

text \<open>\<^verbatim>\<open>TableHeap.Insert\<close>. Any error of the first \<^verbatim>\<open>InsertTuple\<close> is taken as a full page:
  a new page is allocated and \<^verbatim>\<open>lastPage\<close> moves to it. A panic ends the program.\<close>

definition TableHeap_Insert ::
  "TableHeap \<Rightarrow> BufferPool \<Rightarrow> Tuple \<Rightarrow> TableHeap \<times> BufferPool \<times> (error + (PageID \<times> 16 word))" where
  "TableHeap_Insert th bp tuple =
     (let data = Serialize tuple in
      (case FetchPage bp (lastPage th) of
         (bp1, Inl e) \<Rightarrow> (th, bp1, Inl e)
       | (bp1, Inr page) \<Rightarrow>
           (case InsertTuple page data of
              Inr (page1, slotNum) \<Rightarrow>
                (th, UnpinPage (store_page bp1 (lastPage th) page1) (ID page1) True,
                 Inr (ID page1, slotNum))
            | Inl ErrPanic \<Rightarrow> (th, bp1, Inl ErrPanic)
            | Inl e \<Rightarrow>
                (case BufferPool_NewPage (UnpinPage bp1 (ID page) False) PageTypeData of
                   (bp2, Inl e2) \<Rightarrow> (th, bp2, Inl e2)
                 | (bp2, Inr newPage) \<Rightarrow>
                     let th1 = th\<lparr>lastPage := ID newPage\<rparr> in
                     (case InsertTuple newPage data of
                        Inl e3 \<Rightarrow> (th1, UnpinPage bp2 (ID newPage) True, Inl e3)
                      | Inr (newPage1, slotNum) \<Rightarrow>
                          (th1, UnpinPage (store_page bp2 (ID newPage) newPage1) (ID newPage1) True,
                           Inr (ID newPage1, slotNum)))))))"

definition TableHeap_Get :: "TableHeap \<Rightarrow> BufferPool \<Rightarrow> PageID \<Rightarrow> 16 word \<Rightarrow> BufferPool \<times> (error + Tuple)" where
  "TableHeap_Get th bp pageID slotNum =
     (case FetchPage bp pageID of
        (bp1, Inl e) \<Rightarrow> (bp1, Inl e)
      | (bp1, Inr page) \<Rightarrow>
          (UnpinPage bp1 pageID False,
           (case GetTuple page slotNum of
              Inl e \<Rightarrow> Inl e
            | Inr data \<Rightarrow> DeserializeTuple data)))"

definition TableHeap_Update ::
  "TableHeap \<Rightarrow> BufferPool \<Rightarrow> PageID \<Rightarrow> 16 word \<Rightarrow> Tuple \<Rightarrow> BufferPool \<times> (error + unit)" where
  "TableHeap_Update th bp pageID slotNum tuple =
     (case FetchPage bp pageID of
        (bp1, Inl e) \<Rightarrow> (bp1, Inl e)
      | (bp1, Inr page) \<Rightarrow>
          (case UpdateTuple page slotNum (Serialize tuple) of
             Inl e \<Rightarrow> (UnpinPage bp1 pageID True, Inl e)
           | Inr page1 \<Rightarrow> (UnpinPage (store_page bp1 pageID page1) pageID True, Inr ())))"

definition TableHeap_Delete ::
  "TableHeap \<Rightarrow> BufferPool \<Rightarrow> PageID \<Rightarrow> 16 word \<Rightarrow> BufferPool \<times> (error + unit)" where
  "TableHeap_Delete th bp pageID slotNum =
     (case FetchPage bp pageID of
        (bp1, Inl e) \<Rightarrow> (bp1, Inl e)
      | (bp1, Inr page) \<Rightarrow>
          (case DeleteTuple page slotNum of
             Inl e \<Rightarrow> (UnpinPage bp1 pageID True, Inl e)
           | Inr page1 \<Rightarrow> (UnpinPage (store_page bp1 pageID page1) pageID True, Inr ())))"

text \<open>The tuples of one page as \<^verbatim>\<open>Scan\<close> emits them: slots whose bytes do not decode are
  skipped.\<close>

fun decode_tuples :: "PageID \<Rightarrow> (16 word \<times> byte list) list \<Rightarrow> TupleWithRID list" where
  "decode_tuples pageID [] = []"
| "decode_tuples pageID ((slotNum, data) # rest) =
     (case DeserializeTuple data of
        Inl e \<Rightarrow> decode_tuples pageID rest
      | Inr tuple \<Rightarrow>
          \<lparr>Tuple_of = tuple, PageID_of = pageID, SlotNum_of = slotNum\<rparr> # decode_tuples pageID rest)"

text \<open>\<^verbatim>\<open>TableHeap.Scan\<close>: from \<^verbatim>\<open>firstPage\<close>, the page id is incremented until \<^verbatim>\<open>lastPage\<close>
  has been read, a page other than the first cannot be fetched, or the id reaches
  \<^verbatim>\<open>InvalidPageID\<close>. The arguments of the loop are the current page id and the results so
  far.\<close>

function Scan_loop ::
  "TableHeap \<Rightarrow> BufferPool \<Rightarrow> PageID \<Rightarrow> TupleWithRID list \<Rightarrow> BufferPool \<times> (error + TupleWithRID list)" where
  "Scan_loop th bp currentPageID results =
     (if currentPageID = InvalidPageID then (bp, Inr results)
      else
        (case FetchPage bp currentPageID of
           (bp1, Inl e) \<Rightarrow>
             if currentPageID \<noteq> firstPage th then (bp1, Inr results) else (bp1, Inl e)
         | (bp1, Inr page) \<Rightarrow>
             (case GetAllTuples page of
                Inl e \<Rightarrow> (bp1, Inl e)
              | Inr tuples \<Rightarrow>
                  let results1 = results @ decode_tuples currentPageID tuples;
                      bp2 = UnpinPage bp1 currentPageID False
                  in if currentPageID = lastPage th then (bp2, Inr results1)
                     else Scan_loop th bp2 (currentPageID + 1) results1)))"
  by pat_completeness auto
termination
proof (relation "measure (\<lambda>(th, bp, cur, res). unat InvalidPageID - unat cur)")
  show "wf (measure (\<lambda>(th, bp, cur, res). unat InvalidPageID - unat cur))" by simp
next
  fix th :: TableHeap and bp :: BufferPool and currentPageID :: PageID
    and results :: "TupleWithRID list" and x xa y xb xc xd
  assume ne: "currentPageID \<noteq> InvalidPageID"
  have "unat currentPageID \<noteq> unat (0xFFFFFFFF :: 32 word)"
    using ne unfolding InvalidPageID_def by (simp only: word_unat_eq_iff not_False_eq_True)
  moreover have "unat currentPageID < 2 ^ 32"
    using unsigned_less [of currentPageID, where 'a = nat] by simp
  ultimately have "unat currentPageID < 4294967295"
    by simp
  moreover from this have "unat (currentPageID + 1) = unat currentPageID + 1"
    by (simp add: unat_word_ariths)
  ultimately show "((th, xd, currentPageID + 1, xc), th, bp, currentPageID, results)
      \<in> measure (\<lambda>(th, bp, cur, res). unat InvalidPageID - unat cur)"
    by (simp add: InvalidPageID_def)
qed

definition TableHeap_Scan :: "TableHeap \<Rightarrow> BufferPool \<Rightarrow> BufferPool \<times> (error + TupleWithRID list)" where
  "TableHeap_Scan th bp = Scan_loop th bp (firstPage th) []"

section \<open>Write-ahead log writer (internal/wal/log.go)\<close>

datatype LogRecordType =
    LogRecordBegin
  | LogRecordCommit
  | LogRecordAbort
  | LogRecordUpdate
  | LogRecordInsert
  | LogRecordDelete
  | LogRecordCheckpoint
  | LogRecordCLR

text \<open>\<^verbatim>\<open>wal.LogRecord\<close>. Fields whose names other records use carry the prefix \<open>Log\<close>
  (\<^verbatim>\<open>LSN\<close>, \<^verbatim>\<open>TxnID\<close>, \<^verbatim>\<open>Type\<close>, \<^verbatim>\<open>TableID\<close>, \<^verbatim>\<open>RowID\<close>, \<^verbatim>\<open>PageID\<close>, \<^verbatim>\<open>SlotNum\<close>); the
  checkpoint's \<^verbatim>\<open>ActiveTxns\<close> is \<open>CkptActiveTxns\<close>.\<close>

record LogRecord =
  LogLSN :: LSN
  PrevLSN :: LSN
  LogTxnID :: TxnID
  LogType :: LogRecordType
  LogTableID :: "32 word"
  LogRowID :: "64 word"
  LogPageID :: PageID
  LogSlotNum :: "16 word"
  BeforeImage :: "byte list"
  AfterImage :: "byte list"
  CkptActiveTxns :: "TxnID list"
  DirtyPages :: "(PageID \<times> LSN) list"
  UndoNextLSN :: LSN

definition logRecordHeaderSize :: nat where
  "logRecordHeaderSize = 51"

definition walBufferSize :: nat where
  "walBufferSize = 64 * 1024"

text \<open>The length of \<^verbatim>\<open>LogRecord.Serialize()\<close>: the header, the two images, for a
  checkpoint the length-prefixed checkpoint data and for a CLR the undo-next LSN.\<close>

definition Serialize_len :: "LogRecord \<Rightarrow> nat" where
  "Serialize_len r =
     logRecordHeaderSize + length (BeforeImage r) + length (AfterImage r) +
     (if LogType r = LogRecordCheckpoint
      then 4 + (4 + length (CkptActiveTxns r) * 8 + 4 + length (DirtyPages r) * 12) else 0) +
     (if LogType r = LogRecordCLR then 8 else 0)"

text \<open>\<^verbatim>\<open>wal.Writer\<close>. The byte buffer is kept as the list of the records it holds (each
  takes 4 bytes of length prefix and its serialized length); \<open>wal_file\<close> holds the records
  written and synced so far. Failures of the file system are outside the model.\<close>

record Writer =
  currentLSN :: LSN
  flushedLSN :: LSN
  buffer :: "LogRecord list"
  bufferLSN :: LSN
  txnLastLSN :: "TxnID \<rightharpoonup> LSN"
  maxTxnID :: TxnID
  wal_file :: "LogRecord list"

definition NewWriter :: Writer where
  "NewWriter =
     \<lparr>currentLSN = 1, flushedLSN = 0, buffer = [], bufferLSN = 0, txnLastLSN = Map.empty,
      maxTxnID = 0, wal_file = []\<rparr>"

definition buffer_len :: "LogRecord list \<Rightarrow> nat" where
  "buffer_len rs = sum_list (map (\<lambda>r. 4 + Serialize_len r) rs)"

definition flushLocked :: "Writer \<Rightarrow> Writer" where
  "flushLocked w =
     (if buffer_len (buffer w) = 0 then w
      else w\<lparr>wal_file := wal_file w @ buffer w, flushedLSN := currentLSN w - 1, buffer := []\<rparr>)"

definition Append :: "Writer \<Rightarrow> LogRecord \<Rightarrow> Writer \<times> LSN" where
  "Append w record =
     (let r1 = record\<lparr>LogLSN := currentLSN w\<rparr>;
          w1 = w\<lparr>currentLSN := currentLSN w + 1\<rparr>;
          r2 = (case txnLastLSN w1 (LogTxnID r1) of
                  Some prev \<Rightarrow> r1\<lparr>PrevLSN := prev\<rparr>
                | None \<Rightarrow> r1\<lparr>PrevLSN := InvalidLSN\<rparr>);
          w2 = (if LogType r2 \<noteq> LogRecordCheckpoint
                then w1\<lparr>txnLastLSN := (txnLastLSN w1)(LogTxnID r2 \<mapsto> LogLSN r2)\<rparr> else w1);
          w3 = (if buffer_len (buffer w2) = 0 then w2\<lparr>bufferLSN := LogLSN r2\<rparr> else w2);
          w4 = w3\<lparr>buffer := buffer w3 @ [r2]\<rparr>;
          w5 = (if buffer_len (buffer w4) \<ge> walBufferSize then flushLocked w4 else w4)
      in (w5, LogLSN r2))"

definition Force :: "Writer \<Rightarrow> LSN \<Rightarrow> Writer" where
  "Force w lsn = (if lsn \<le> flushedLSN w then w else flushLocked w)"

definition Flush :: "Writer \<Rightarrow> Writer" where
  "Flush w = flushLocked w"

definition empty_record :: LogRecord where
  "empty_record =
     \<lparr>LogLSN = 0, PrevLSN = 0, LogTxnID = 0, LogType = LogRecordBegin, LogTableID = 0,
      LogRowID = 0, LogPageID = 0, LogSlotNum = 0, BeforeImage = [], AfterImage = [],
      CkptActiveTxns = [], DirtyPages = [], UndoNextLSN = 0\<rparr>"

definition LogBegin :: "Writer \<Rightarrow> TxnID \<Rightarrow> Writer \<times> LSN" where
  "LogBegin w txnID = Append w (empty_record\<lparr>LogTxnID := txnID, LogType := LogRecordBegin\<rparr>)"

definition LogCommit :: "Writer \<Rightarrow> TxnID \<Rightarrow> Writer \<times> LSN" where
  "LogCommit w txnID =
     (case Append w (empty_record\<lparr>LogTxnID := txnID, LogType := LogRecordCommit\<rparr>) of
        (w1, lsn) \<Rightarrow>
          let w2 = Force w1 lsn
          in (w2\<lparr>txnLastLSN := (txnLastLSN w2)(txnID := None)\<rparr>, lsn))"

definition LogAbort :: "Writer \<Rightarrow> TxnID \<Rightarrow> Writer \<times> LSN" where
  "LogAbort w txnID =
     (case Append w (empty_record\<lparr>LogTxnID := txnID, LogType := LogRecordAbort\<rparr>) of
        (w1, lsn) \<Rightarrow> (w1\<lparr>txnLastLSN := (txnLastLSN w1)(txnID := None)\<rparr>, lsn))"

definition LogInsert ::
  "Writer \<Rightarrow> TxnID \<Rightarrow> 32 word \<Rightarrow> 64 word \<Rightarrow> PageID \<Rightarrow> 16 word \<Rightarrow> byte list \<Rightarrow> Writer \<times> LSN" where
  "LogInsert w txnID tid rowID pageID slotNum data =
     Append w (empty_record\<lparr>LogTxnID := txnID, LogType := LogRecordInsert, LogTableID := tid,
       LogRowID := rowID, LogPageID := pageID, LogSlotNum := slotNum, AfterImage := data\<rparr>)"

section \<open>Transaction manager (internal/txn/transaction.go)\<close>

datatype TxnStatus = TxnStatusRunning | TxnStatusCommitted | TxnStatusAborted

text \<open>\<^verbatim>\<open>txn.Transaction\<close>; its \<^verbatim>\<open>ID\<close> is \<open>TxID\<close> here. The lock table \<^verbatim>\<open>HeldLocks\<close> is never
  filled by the code and is left out.\<close>

record Transaction =
  TxID :: TxnID
  Status :: TxnStatus
  StartTS :: TxnID
  Snapshot :: Snapshot
  CommandID :: CommandID
  LastLSN :: LSN

text \<open>\<^verbatim>\<open>txn.Manager\<close>. \<^verbatim>\<open>activeTxns\<close> is a Go map; it is an association list with one
  entry per id. The WAL writer may be nil.\<close>

record Manager =
  nextTxnID :: "64 word"
  activeTxns :: "(TxnID \<times> Transaction) list"
  walWriter :: "Writer option"
  globalXmin :: TxnID

definition NewManager :: "Writer option \<Rightarrow> Manager" where
  "NewManager w = \<lparr>nextTxnID = 1, activeTxns = [], walWriter = w, globalXmin = MaxTxnID\<rparr>"

text \<open>The loop of \<^verbatim>\<open>createSnapshotLocked\<close> over the active transactions.\<close>

fun snapshot_loop :: "TxnID list \<Rightarrow> Snapshot \<Rightarrow> Snapshot" where
  "snapshot_loop [] snap = snap"
| "snapshot_loop (txnID # rest) snap =
     snapshot_loop rest
       (let snap1 = snap\<lparr>ActiveTxns := (ActiveTxns snap)(txnID \<mapsto> True)\<rparr>
        in if txnID < Xmin snap1 then snap1\<lparr>Xmin := txnID\<rparr> else snap1)"

definition createSnapshotLocked :: "Manager \<Rightarrow> Snapshot" where
  "createSnapshotLocked m =
     (let snap = snapshot_loop (map fst (activeTxns m))
                   \<lparr>Xmin = MaxTxnID, Xmax = nextTxnID m, ActiveTxns = Map.empty\<rparr>
      in if Xmin snap = MaxTxnID then snap\<lparr>Xmin := Xmax snap\<rparr> else snap)"

fun min_txn :: "TxnID list \<Rightarrow> TxnID \<Rightarrow> TxnID" where
  "min_txn [] acc = acc"
| "min_txn (txnID # rest) acc = min_txn rest (if txnID < acc then txnID else acc)"

definition updateGlobalXmin :: "Manager \<Rightarrow> Manager" where
  "updateGlobalXmin m = m\<lparr>globalXmin := min_txn (map fst (activeTxns m)) MaxTxnID\<rparr>"

text \<open>\<^verbatim>\<open>Begin\<close>. \<^verbatim>\<open>atomic.AddUint64(&m.nextTxnID, 1)\<close> stores the incremented counter and
  returns this new value, which becomes the transaction's id.\<close>

definition Begin :: "Manager \<Rightarrow> Manager \<times> Transaction" where
  "Begin m =
     (let txnID = nextTxnID m + 1;
          m1 = m\<lparr>nextTxnID := txnID\<rparr>;
          snapshot = createSnapshotLocked m1;
          txn = \<lparr>TxID = txnID, Status = TxnStatusRunning, StartTS = txnID, Snapshot = snapshot,
                 CommandID = 0, LastLSN = 0\<rparr>
      in (case walWriter m1 of
            None \<Rightarrow>
              (updateGlobalXmin (m1\<lparr>activeTxns := AList.update txnID txn (activeTxns m1)\<rparr>), txn)
          | Some w \<Rightarrow>
              (case LogBegin w txnID of
                 (w1, lsn) \<Rightarrow>
                   let txn1 = txn\<lparr>LastLSN := lsn\<rparr>
                   in ((updateGlobalXmin (m1\<lparr>activeTxns := AList.update txnID txn1 (activeTxns m1)\<rparr>))
                         \<lparr>walWriter := Some w1\<rparr>, txn1))))"

text \<open>\<^verbatim>\<open>Commit\<close> and \<^verbatim>\<open>Rollback\<close> fail on a transaction that is not running.\<close>

definition Commit :: "Manager \<Rightarrow> Transaction \<Rightarrow> Manager \<times> (error + Transaction)" where
  "Commit m txn =
     (if Status txn \<noteq> TxnStatusRunning then (m, Inl ErrCallback)
      else
        (case walWriter m of
           None \<Rightarrow>
             (updateGlobalXmin (m\<lparr>activeTxns := AList.delete (TxID txn) (activeTxns m)\<rparr>),
              Inr (txn\<lparr>Status := TxnStatusCommitted\<rparr>))
         | Some w \<Rightarrow>
             (case LogCommit w (TxID txn) of
                (w1, lsn) \<Rightarrow>
                  ((updateGlobalXmin (m\<lparr>activeTxns := AList.delete (TxID txn) (activeTxns m)\<rparr>))
                     \<lparr>walWriter := Some w1\<rparr>,
                   Inr (txn\<lparr>LastLSN := lsn, Status := TxnStatusCommitted\<rparr>)))))"

definition Rollback :: "Manager \<Rightarrow> Transaction \<Rightarrow> Manager \<times> (error + Transaction)" where
  "Rollback m txn =
     (if Status txn \<noteq> TxnStatusRunning then (m, Inl ErrCallback)
      else
        (case walWriter m of
           None \<Rightarrow>
             (updateGlobalXmin (m\<lparr>activeTxns := AList.delete (TxID txn) (activeTxns m)\<rparr>),
              Inr (txn\<lparr>Status := TxnStatusAborted\<rparr>))
         | Some w \<Rightarrow>
             (case LogAbort w (TxID txn) of
                (w1, lsn) \<Rightarrow>
                  ((updateGlobalXmin (m\<lparr>activeTxns := AList.delete (TxID txn) (activeTxns m)\<rparr>))
                     \<lparr>walWriter := Some w1\<rparr>,
                   Inr (txn\<lparr>Status := TxnStatusAborted, LastLSN := lsn\<rparr>)))))"

definition NextCommandID :: "Transaction \<Rightarrow> Transaction \<times> CommandID" where
  "NextCommandID txn = (txn\<lparr>CommandID := CommandID txn + 1\<rparr>, CommandID txn + 1)"

text \<open>The tuple a transaction inserts (\<^verbatim>\<open>executeInsert\<close>): xmin is the transaction's id,
  xmax is 0.\<close>

definition inserted_tuple :: "Transaction \<Rightarrow> 32 word \<Rightarrow> byte list \<Rightarrow> Tuple" where
  "inserted_tuple txn tid data =
     \<lparr>XMin = TxID txn, XMax = InvalidTxnID, Cid = CommandID txn, TableID = tid, RowID = 0,
      Data = data\<rparr>"

section \<open>SQL values and B-tree key encoding (pkg/types/types.go, internal/index/btree.go)\<close>





section \<open>Scenario: two tables sharing the data file\<close>

text \<open>An empty data file behind a buffer pool of 10 pages.\<close>

definition bp0 :: BufferPool where
  "bp0 = NewBufferPool \<lparr>numPages = 0, file_pages = Map.empty\<rparr> 10"

definition big_tuple :: Tuple where
  "big_tuple = \<lparr>XMin = 2, XMax = 0, Cid = 1, TableID = 1, RowID = 0, Data = replicate 2100 0\<rparr>"

definition small_tuple :: Tuple where
  "small_tuple = \<lparr>XMin = 2, XMax = 0, Cid = 1, TableID = 2, RowID = 0, Data = [1, 2, 3, 4, 5, 6, 7, 8]\<rparr>"

text \<open>Table 1 and table 2 are created (pages 0 and 1), table 2 receives a small tuple, table 1
  two tuples of 2136 bytes each, of which the second does not fit on page 0. The result
  reports table 1's heap, the two locations, the next-page-id of page 0 and, for each tuple
  of a scan of table 1, its page and the table id stored in it.\<close>

definition chain_scenario ::
  "error + (TableHeap \<times> (PageID \<times> 16 word) \<times> (PageID \<times> 16 word) \<times> PageID option \<times>
            (PageID \<times> 32 word) list)" where
  "chain_scenario =
     (case NewTableHeap bp0 1 of
        (bp1, Inl e) \<Rightarrow> Inl e
      | (bp1, Inr thA) \<Rightarrow>
     (case NewTableHeap bp1 2 of
        (bp2, Inl e) \<Rightarrow> Inl e
      | (bp2, Inr thB) \<Rightarrow>
     (case TableHeap_Insert thB bp2 small_tuple of
        (thB1, bp3, Inl e) \<Rightarrow> Inl e
      | (thB1, bp3, Inr rb) \<Rightarrow>
     (case TableHeap_Insert thA bp3 big_tuple of
        (thA1, bp4, Inl e) \<Rightarrow> Inl e
      | (thA1, bp4, Inr r1) \<Rightarrow>
     (case TableHeap_Insert thA1 bp4 big_tuple of
        (thA2, bp5, Inl e) \<Rightarrow> Inl e
      | (thA2, bp5, Inr r2) \<Rightarrow>
     (case TableHeap_Scan thA2 bp5 of
        (bp6, Inl e) \<Rightarrow> Inl e
      | (bp6, Inr res) \<Rightarrow>
          Inr (thA2, r1, r2, map_option GetNextPageID (map_of (pages bp6) 0),
               map (\<lambda>r. (PageID_of r, TableID (Tuple_of r))) res)))))))"

section \<open>SQL executor: INSERT, UPDATE and DELETE on the heap (internal/sql/executor.go)\<close>

text \<open>The executor state the three statements use: the heap of the statement's table (what
  \<^verbatim>\<open>catalog.GetTableHeap\<close> returns; the catalog look-ups that precede it are the front-end's),
  the buffer pool, the transaction manager with its WAL writer, and the transaction of an
  open \<^verbatim>\<open>BEGIN\<close>. The in-memory \<^verbatim>\<open>MVCCStore\<close>, which the statements also feed but never read,
  is left out.\<close>

record Executor =
  heap :: TableHeap
  bufferPool :: BufferPool
  txnManager :: Manager
  currentTxn :: "Transaction option"

text \<open>A statement's row logic is the front-end's: \<open>matches\<close> decodes a tuple's data and
  evaluates the WHERE clause on it, \<open>apply_set\<close> decodes it, applies the SET clause and
  encodes the new row.\<close>

definition getTransaction :: "Executor \<Rightarrow> Executor \<times> Transaction \<times> bool" where
  "getTransaction e =
     (case currentTxn e of
        Some txn \<Rightarrow> (e, txn, False)
      | None \<Rightarrow>
          (case Begin (txnManager e) of
             (m1, txn) \<Rightarrow> (e\<lparr>txnManager := m1\<rparr>, txn, True)))"

text \<open>The log call of the statements: the record gets the transaction, table and row ids and
  the images the call passes.\<close>

definition log_statement ::
  "Manager \<Rightarrow> LogRecordType \<Rightarrow> TxnID \<Rightarrow> 32 word \<Rightarrow> 64 word \<Rightarrow> byte list \<Rightarrow> byte list \<Rightarrow> Manager" where
  "log_statement m ty txnID tid rowID before after =
     (case walWriter m of
        None \<Rightarrow> m
      | Some w \<Rightarrow>
          m\<lparr>walWriter := Some (fst (Append w (empty_record\<lparr>LogTxnID := txnID, LogType := ty,
                 LogTableID := tid, LogRowID := rowID, BeforeImage := before, AfterImage := after\<rparr>)))\<rparr>)"

definition row_id :: "PageID \<Rightarrow> 16 word \<Rightarrow> 64 word" where
  "row_id pageID slotNum = push_bit 16 (ucast pageID) OR ucast slotNum"

text \<open>The end of an auto-committed statement: flush all pages, then commit.\<close>

definition finish_statement :: "Executor \<Rightarrow> Transaction \<Rightarrow> bool \<Rightarrow> Executor" where
  "finish_statement e txn autoCommit =
     (if autoCommit then
        (let bp1 = FlushAllPages (bufferPool e)
         in e\<lparr>bufferPool := bp1, txnManager := fst (Commit (txnManager e) txn)\<rparr>)
      else e)"

text \<open>\<^verbatim>\<open>txn.NextCommandID()\<close> on the statement's transaction: an open transaction keeps the
  incremented command id.\<close>

definition next_command :: "Executor \<Rightarrow> Transaction \<Rightarrow> bool \<Rightarrow> Executor \<times> Transaction \<times> CommandID" where
  "next_command e txn0 autoCommit =
     (case NextCommandID txn0 of
        (txn, cid) \<Rightarrow> (if autoCommit then e else e\<lparr>currentTxn := Some txn\<rparr>, txn, cid))"

definition executeInsert :: "Executor \<Rightarrow> byte list \<Rightarrow> Executor \<times> (error + (PageID \<times> 16 word))" where
  "executeInsert e0 data =
     (case getTransaction e0 of
        (e00, txn0, autoCommit) \<Rightarrow>
          (case next_command e00 txn0 autoCommit of
             (e, txn, cid) \<Rightarrow>
               let tuple = \<lparr>XMin = TxID txn, XMax = InvalidTxnID, Cid = cid,
                            TableID = tableID (heap e), RowID = 0, Data = data\<rparr>
               in (case TableHeap_Insert (heap e) (bufferPool e) tuple of
                     (th1, bp1, Inl err) \<Rightarrow> (e\<lparr>heap := th1, bufferPool := bp1\<rparr>, Inl err)
                   | (th1, bp1, Inr (pageID, slotNum)) \<Rightarrow>
                       let tuple1 = tuple\<lparr>RowID := row_id pageID slotNum\<rparr>;
                           m1 = log_statement (txnManager e) LogRecordInsert (TxID txn)
                                  (tableID (heap e)) (RowID tuple1) [] (Serialize tuple1)
                       in (finish_statement (e\<lparr>heap := th1, bufferPool := bp1, txnManager := m1\<rparr>)
                             txn autoCommit,
                           Inr (pageID, slotNum)))))"

text \<open>The loop of \<^verbatim>\<open>executeUpdate\<close> over the scanned tuples. The old version's xmax is set on
  the scanned copy \<open>t\<close> only; the heap is touched by the insert of the new version. The
  result counts the updated tuples.\<close>

fun update_loop ::
  "(byte list \<Rightarrow> bool) \<Rightarrow> (byte list \<Rightarrow> byte list) \<Rightarrow> Transaction \<Rightarrow> CommandID \<Rightarrow>
   TupleWithRID list \<Rightarrow> Executor \<Rightarrow> nat \<Rightarrow> Executor \<times> (error + nat)" where
  "update_loop matches apply_set txn cid [] e updated = (e, Inr updated)"
| "update_loop matches apply_set txn cid (t # ts) e updated =
     (if \<not> IsVisible (Snapshot txn) (Tuple_of t) then
        update_loop matches apply_set txn cid ts e updated
      else if \<not> matches (Data (Tuple_of t)) then
        update_loop matches apply_set txn cid ts e updated
      else
        let oldTupleData = Serialize (Tuple_of t);
            old = (Tuple_of t)\<lparr>XMax := TxID txn\<rparr>;
            newTuple = \<lparr>XMin = TxID txn, XMax = InvalidTxnID, Cid = cid, TableID = tableID (heap e),
                        RowID = RowID old, Data = apply_set (Data old)\<rparr>
        in (case TableHeap_Insert (heap e) (bufferPool e) newTuple of
              (th1, bp1, Inl err) \<Rightarrow> (e\<lparr>heap := th1, bufferPool := bp1\<rparr>, Inl err)
            | (th1, bp1, Inr (pageID, slotNum)) \<Rightarrow>
                let newTuple1 = newTuple\<lparr>RowID := row_id pageID slotNum\<rparr>;
                    m1 = log_statement (txnManager e) LogRecordUpdate (TxID txn) (tableID (heap e))
                           (RowID old) oldTupleData (Serialize newTuple1)
                in update_loop matches apply_set txn cid ts
                     (e\<lparr>heap := th1, bufferPool := bp1, txnManager := m1\<rparr>) (Suc updated)))"

definition executeUpdate ::
  "Executor \<Rightarrow> (byte list \<Rightarrow> bool) \<Rightarrow> (byte list \<Rightarrow> byte list) \<Rightarrow> Executor \<times> (error + nat)" where
  "executeUpdate e0 matches apply_set =
     (case getTransaction e0 of
        (e00, txn0, autoCommit) \<Rightarrow>
          (case next_command e00 txn0 autoCommit of
             (e, txn, cid) \<Rightarrow>
               (case TableHeap_Scan (heap e) (bufferPool e) of
                  (bp1, Inl err) \<Rightarrow> (e\<lparr>bufferPool := bp1\<rparr>, Inl err)
                | (bp1, Inr tuples) \<Rightarrow>
                    (case update_loop matches apply_set txn cid tuples (e\<lparr>bufferPool := bp1\<rparr>) 0 of
                       (e1, Inl err) \<Rightarrow>
                         (if autoCommit
                          then e1\<lparr>txnManager := fst (Rollback (txnManager e1) txn)\<rparr> else e1,
                          Inl err)
                     | (e1, Inr updated) \<Rightarrow> (finish_statement e1 txn autoCommit, Inr updated)))))"

text \<open>The loop of \<^verbatim>\<open>executeDelete\<close>: the old version, with its xmax set, is written back in
  place by \<^verbatim>\<open>heap.Update\<close> (whose error the statement ignores).\<close>

fun delete_loop ::
  "(byte list \<Rightarrow> bool) \<Rightarrow> Transaction \<Rightarrow> TupleWithRID list \<Rightarrow> Executor \<Rightarrow> nat \<Rightarrow> Executor \<times> nat" where
  "delete_loop matches txn [] e deleted = (e, deleted)"
| "delete_loop matches txn (t # ts) e deleted =
     (if \<not> IsVisible (Snapshot txn) (Tuple_of t) then delete_loop matches txn ts e deleted
      else if \<not> matches (Data (Tuple_of t)) then delete_loop matches txn ts e deleted
      else
        let oldTupleData = Serialize (Tuple_of t);
            old = (Tuple_of t)\<lparr>XMax := TxID txn\<rparr>;
            bp1 = fst (TableHeap_Update (heap e) (bufferPool e) (PageID_of t) (SlotNum_of t) old);
            m1 = log_statement (txnManager e) LogRecordDelete (TxID txn) (tableID (heap e))
                   (RowID old) oldTupleData []
        in delete_loop matches txn ts (e\<lparr>bufferPool := bp1, txnManager := m1\<rparr>) (Suc deleted))"

definition executeDelete :: "Executor \<Rightarrow> (byte list \<Rightarrow> bool) \<Rightarrow> Executor \<times> (error + nat)" where
  "executeDelete e0 matches =
     (case getTransaction e0 of
        (e, txn, autoCommit) \<Rightarrow>
          (case TableHeap_Scan (heap e) (bufferPool e) of
             (bp1, Inl err) \<Rightarrow> (e\<lparr>bufferPool := bp1\<rparr>, Inl err)
           | (bp1, Inr tuples) \<Rightarrow>
               (case delete_loop matches txn tuples (e\<lparr>bufferPool := bp1\<rparr>) 0 of
                  (e1, deleted) \<Rightarrow> (finish_statement e1 txn autoCommit, Inr deleted))))"

text \<open>\<^verbatim>\<open>BEGIN\<close> and \<^verbatim>\<open>ROLLBACK\<close>. The executor's in-memory MVCC store, which the rollback also
  updates, is not part of the heap and is left out.\<close>

definition executeBegin :: "Executor \<Rightarrow> Executor \<times> (error + TxnID)" where
  "executeBegin e =
     (case currentTxn e of
        Some txn \<Rightarrow> (e, Inl ErrCallback)
      | None \<Rightarrow>
          (case Begin (txnManager e) of
             (m1, txn) \<Rightarrow> (e\<lparr>txnManager := m1, currentTxn := Some txn\<rparr>, Inr (TxID txn))))"

definition executeRollback :: "Executor \<Rightarrow> Executor \<times> (error + TxnID)" where
  "executeRollback e =
     (case currentTxn e of
        None \<Rightarrow> (e, Inl ErrCallback)
      | Some txn \<Rightarrow>
          (case Rollback (txnManager e) txn of
             (m1, Inl err) \<Rightarrow> (e\<lparr>txnManager := m1\<rparr>, Inl err)
           | (m1, Inr txn1) \<Rightarrow> (e\<lparr>txnManager := m1, currentTxn := None\<rparr>, Inr (TxID txn))))"

section \<open>Scenario: an auto-committed INSERT followed by an UPDATE or a DELETE\<close>

definition row1 :: "byte list" where
  "row1 = [1, 2, 3, 4, 5, 6, 7, 8, 9, 10, 11, 12, 13, 14, 15, 16]"

definition row2 :: "byte list" where
  "row2 = [21, 22, 23, 24, 25, 26, 27, 28, 29, 30, 31, 32, 33, 34, 35, 36]"

text \<open>A new table in an empty data file, a fresh transaction manager logging to a fresh WAL,
  no open transaction; then \<^verbatim>\<open>INSERT\<close> of \<open>row1\<close>, auto-committed by transaction 2.\<close>

definition executor0 :: "error + Executor" where
  "executor0 =
     (case NewTableHeap bp0 1 of
        (bp1, Inl e) \<Rightarrow> Inl e
      | (bp1, Inr th) \<Rightarrow>
          Inr \<lparr>heap = th, bufferPool = bp1, txnManager = NewManager (Some NewWriter),
               currentTxn = None\<rparr>)"

definition after_insert :: "error + Executor" where
  "after_insert =
     (case executor0 of
        Inl e \<Rightarrow> Inl e
      | Inr e0 \<Rightarrow>
          (case executeInsert e0 row1 of
             (e1, Inl e) \<Rightarrow> Inl e
           | (e1, Inr loc) \<Rightarrow> Inr e1))"

text \<open>What a statement leaves behind: its count, and the xmin and xmax of the tuples at
  (page 0, slot 0) and (page 0, slot 1), read through the heap and from the page image on
  disk.\<close>

definition xmin_xmax :: "error + Tuple \<Rightarrow> (TxnID \<times> TxnID) option" where
  "xmin_xmax r = (case r of Inl e \<Rightarrow> None | Inr t \<Rightarrow> Some (XMin t, XMax t))"

definition on_disk :: "Executor \<Rightarrow> PageID \<Rightarrow> 16 word \<Rightarrow> error + Tuple" where
  "on_disk e pageID slotNum =
     (case ReadPage (diskManager (bufferPool e)) pageID of
        Inl err \<Rightarrow> Inl err
      | Inr page \<Rightarrow>
          (case GetTuple page slotNum of
             Inl err \<Rightarrow> Inl err
           | Inr data \<Rightarrow> DeserializeTuple data))"

definition observe ::
  "Executor \<times> (error + nat) \<Rightarrow>
   (error + nat) \<times> (TxnID \<times> TxnID) option \<times> (TxnID \<times> TxnID) option \<times>
   (TxnID \<times> TxnID) option \<times> (TxnID \<times> TxnID) option" where
  "observe r =
     (case r of
        (e, n) \<Rightarrow>
          (n,
           xmin_xmax (snd (TableHeap_Get (heap e) (bufferPool e) 0 0)),
           xmin_xmax (on_disk e 0 0),
           xmin_xmax (snd (TableHeap_Get (heap e) (bufferPool e) 0 1)),
           xmin_xmax (on_disk e 0 1)))"



section \<open>Scenario: a page flushed or evicted while its log record is only buffered\<close>

definition disk_lsn :: "BufferPool \<Rightarrow> PageID \<Rightarrow> LSN option" where
  "disk_lsn bp pageID = map_option (\<lambda>d. get_le64 d 8) (file_pages (diskManager bp) pageID)"

text \<open>A fresh WAL receives one insert record (LSN 1, not forced). A new page is tagged with
  that LSN through \<^verbatim>\<open>SetPageLSN\<close>, unpinned and written by \<^verbatim>\<open>FlushPage\<close>. The result is the
  record's LSN, the WAL's flushed-LSN and the page-LSN in the page image on disk.\<close>

definition flush_scenario :: "error + (LSN \<times> LSN \<times> LSN option)" where
  "flush_scenario =
     (case LogInsert NewWriter 2 1 0 0 0 row1 of
        (w1, lsn) \<Rightarrow>
          (case BufferPool_NewPage bp0 PageTypeData of
             (bp1, Inl e) \<Rightarrow> Inl e
           | (bp1, Inr page) \<Rightarrow>
               let bp2 = UnpinPage (SetPageLSN bp1 (ID page) lsn) (ID page) True;
                   bp3 = FlushPage bp2 (ID page)
               in Inr (lsn, flushedLSN w1, disk_lsn bp3 (ID page))))"

text \<open>The same with a buffer pool of one page, where allocating a second page evicts the
  first.\<close>

definition evict_scenario :: "error + (LSN \<times> LSN \<times> LSN option)" where
  "evict_scenario =
     (case LogInsert NewWriter 2 1 0 0 0 row1 of
        (w1, lsn) \<Rightarrow>
          (case BufferPool_NewPage (NewBufferPool \<lparr>numPages = 0, file_pages = Map.empty\<rparr> 1)
                  PageTypeData of
             (bp1, Inl e) \<Rightarrow> Inl e
           | (bp1, Inr page) \<Rightarrow>
               let bp2 = UnpinPage (SetPageLSN bp1 (ID page) lsn) (ID page) True
               in (case BufferPool_NewPage bp2 PageTypeData of
                     (bp3, Inl e) \<Rightarrow> Inl e
                   | (bp3, Inr page2) \<Rightarrow> Inr (lsn, flushedLSN w1, disk_lsn bp3 (ID page)))))"

text \<open>The statements \<^verbatim>\<open>BEGIN\<close>, \<^verbatim>\<open>INSERT\<close> of \<open>row1\<close>, and the first step of \<^verbatim>\<open>COMMIT\<close>, which
  flushes all pages before the transaction manager's commit forces the log. The result is
  the xmin and xmax of the tuple in the page image on disk, and the number of records in
  the WAL buffer, the number of records in the WAL file and the flushed-LSN at that
  moment.\<close>

definition commit_flush_scenario :: "((TxnID \<times> TxnID) option \<times> (nat \<times> nat \<times> LSN) option) option" where
  "commit_flush_scenario =
     (case executor0 of
        Inl e \<Rightarrow> None
      | Inr e0 \<Rightarrow>
          let e1 = fst (executeBegin e0);
              e2 = fst (executeInsert e1 row1);
              e3 = e2\<lparr>bufferPool := FlushAllPages (bufferPool e2)\<rparr>
          in Some (xmin_xmax (on_disk e3 0 0),
                   map_option (\<lambda>w. (length (buffer w), length (wal_file w), flushedLSN w))
                     (walWriter (txnManager e3))))"

section \<open>ARIES redo (internal/wal/recovery.go)\<close>

text \<open>The fields of \<^verbatim>\<open>wal.RecoveryManager\<close> that the redo phase reads. The callbacks act on
  the engine's state, of type \<open>'s\<close>: the page-LSN callback returns an LSN (and may change the
  state, as the engine's does by fetching the page), the redo callback may fail. Either
  may be nil. The dirty page table is a Go map, here an association list.\<close>

record 's RecoveryManager =
  dirtyPageTable :: "(PageID \<times> LSN) list"
  redoCallback :: "(LogRecord \<Rightarrow> 's \<Rightarrow> error + 's) option"
  pageLSNCallback :: "(PageID \<Rightarrow> 's \<Rightarrow> LSN \<times> 's) option"

fun min_recLSN :: "(PageID \<times> LSN) list \<Rightarrow> LSN \<Rightarrow> LSN" where
  "min_recLSN [] acc = acc"
| "min_recLSN ((pageID, recLSN) # rest) acc =
     min_recLSN rest (if recLSN < acc then recLSN else acc)"

definition is_data_record :: "LogRecord \<Rightarrow> bool" where
  "is_data_record r =
     (LogType r = LogRecordUpdate \<or> LogType r = LogRecordInsert \<or>
      LogType r = LogRecordDelete \<or> LogType r = LogRecordCLR)"

text \<open>The loop of \<^verbatim>\<open>redoPhase\<close> over the records of the log. The first component of the
  result lists the records the redo callback was invoked on (the \<^verbatim>\<open>REDO:\<close> lines the code
  prints), the second is the state reached or the error of the callback that failed.\<close>

fun redo_loop ::
  "'s RecoveryManager \<Rightarrow> LSN \<Rightarrow> LogRecord list \<Rightarrow> 's \<Rightarrow> LogRecord list \<times> (error + 's)" where
  "redo_loop rm minRecLSN [] st = ([], Inr st)"
| "redo_loop rm minRecLSN (r # rs) st =
     (if LogLSN r < minRecLSN then redo_loop rm minRecLSN rs st
      else if \<not> is_data_record r then redo_loop rm minRecLSN rs st
      else
        (case map_of (dirtyPageTable rm) (LogPageID r) of
           None \<Rightarrow> redo_loop rm minRecLSN rs st
         | Some recLSN \<Rightarrow>
             if LogLSN r < recLSN then redo_loop rm minRecLSN rs st
             else
               (case (case pageLSNCallback rm of
                        None \<Rightarrow> (False, st)
                      | Some cb \<Rightarrow> (case cb (LogPageID r) st of
                                     (pageLSN, st1) \<Rightarrow> (pageLSN \<ge> LogLSN r, st1))) of
                  (already_applied, st1) \<Rightarrow>
                    if already_applied then redo_loop rm minRecLSN rs st1
                    else
                      (case redoCallback rm of
                         None \<Rightarrow> redo_loop rm minRecLSN rs st1
                       | Some redo \<Rightarrow>
                           (case redo r st1 of
                              Inl e \<Rightarrow> ([r], Inl e)
                            | Inr st2 \<Rightarrow>
                                (case redo_loop rm minRecLSN rs st2 of
                                   (invoked, res) \<Rightarrow> (r # invoked, res)))))))"

text \<open>\<^verbatim>\<open>redoPhase\<close>: nothing to do with an empty dirty page table; otherwise the log is read
  (\<open>wal\<close> is what \<^verbatim>\<open>readAllRecords\<close> returns) and scanned from the smallest rec-LSN.\<close>

definition redoPhase ::
  "'s RecoveryManager \<Rightarrow> error + LogRecord list \<Rightarrow> 's \<Rightarrow> LogRecord list \<times> (error + 's)" where
  "redoPhase rm wal st =
     (if length (dirtyPageTable rm) = 0 then ([], Inr st)
      else
        (case wal of
           Inl e \<Rightarrow> ([], Inl e)
         | Inr records \<Rightarrow> redo_loop rm (min_recLSN (dirtyPageTable rm) (- 1)) records st))"

text \<open>The redo rule in the specification's words: a data-mutating record is applied only if
  its page is in the dirty page table with a rec-LSN not above the record's LSN, and the
  record's LSN is above the page's current page-LSN.\<close>

definition in_dpt_from :: "(PageID \<times> LSN) list \<Rightarrow> LogRecord \<Rightarrow> bool" where
  "in_dpt_from dpt r =
     (case map_of dpt (LogPageID r) of None \<Rightarrow> False | Some recLSN \<Rightarrow> recLSN \<le> LogLSN r)"

definition redo_conditions :: "(PageID \<times> LSN) list \<Rightarrow> LSN \<Rightarrow> LogRecord \<Rightarrow> bool" where
  "redo_conditions dpt pageLSN r = (in_dpt_from dpt r \<and> pageLSN < LogLSN r)"

fun redo_spec ::
  "(PageID \<times> LSN) list \<Rightarrow> (PageID \<Rightarrow> 's \<Rightarrow> LSN \<times> 's) \<Rightarrow> (LogRecord \<Rightarrow> 's \<Rightarrow> error + 's) \<Rightarrow>
   LogRecord list \<Rightarrow> 's \<Rightarrow> LogRecord list \<times> (error + 's)" where
  "redo_spec dpt plsn redo [] st = ([], Inr st)"
| "redo_spec dpt plsn redo (r # rs) st =
     (if is_data_record r \<and> in_dpt_from dpt r then
        (case plsn (LogPageID r) st of
           (pageLSN, st1) \<Rightarrow>
             if redo_conditions dpt pageLSN r then
               (case redo r st1 of
                  Inl e \<Rightarrow> ([r], Inl e)
                | Inr st2 \<Rightarrow>
                    (case redo_spec dpt plsn redo rs st2 of
                       (invoked, res) \<Rightarrow> (r # invoked, res)))
             else redo_spec dpt plsn redo rs st1)
      else redo_spec dpt plsn redo rs st)"

section \<open>Vacuum (internal/engine/engine.go)\<close>

text \<open>Modelled from the spec: the known-committed set of the transaction manager (sections
  4.5 and 4.7), with \<^verbatim>\<open>IsTxnCommitted\<close> and \<^verbatim>\<open>PruneCommittedBefore\<close>. The \<^verbatim>\<open>Manager\<close> under src/
  has neither the set nor the two methods that \<^verbatim>\<open>Engine.Vacuum\<close> calls. Commit records the
  transaction's id in the set, rollback leaves the set alone, entries below the cutoff may
  be pruned.\<close>

definition IsTxnCommitted :: "(TxnID \<rightharpoonup> bool) \<Rightarrow> TxnID \<Rightarrow> bool" where
  "IsTxnCommitted committedTxns txnID = map_bool_get committedTxns txnID"

definition committed_by_Commit :: "(TxnID \<rightharpoonup> bool) \<Rightarrow> Transaction \<Rightarrow> (TxnID \<rightharpoonup> bool)" where
  "committed_by_Commit committedTxns txn = committedTxns(TxID txn \<mapsto> True)"


definition PruneCommittedBefore :: "(TxnID \<rightharpoonup> bool) \<Rightarrow> TxnID \<Rightarrow> (TxnID \<rightharpoonup> bool)" where
  "PruneCommittedBefore committedTxns cutoff =
     (\<lambda>txnID. if txnID < cutoff then None else committedTxns txnID)"

text \<open>\<^verbatim>\<open>storage.Catalog\<close>, as far as \<^verbatim>\<open>Vacuum\<close> reads it: the table names of \<^verbatim>\<open>schemas\<close>, and the
  maps \<^verbatim>\<open>tableIDs\<close> and \<^verbatim>\<open>tableHeaps\<close>.\<close>

record Catalog =
  schemas :: "string list"
  tableIDs :: "(string \<times> 32 word) list"
  tableHeaps :: "(32 word \<times> TableHeap) list"

text \<open>\<^verbatim>\<open>engine.Engine\<close> with the fields \<^verbatim>\<open>Vacuum\<close> uses, prefixed \<open>eng_\<close>; the engine has no
  B-tree index (\<^verbatim>\<open>e.indexes\<close> is empty), so the index rebuild of \<^verbatim>\<open>Vacuum\<close> has no table to
  work on.\<close>

record Engine =
  eng_catalog :: Catalog
  eng_bufferPool :: BufferPool
  eng_txnManager :: Manager
  eng_committedTxns :: "TxnID \<rightharpoonup> bool"

record VacuumTableStats =
  TableName :: string
  TuplesScanned :: nat
  TuplesRemoved :: nat

text \<open>The inner loop of \<^verbatim>\<open>Vacuum\<close> over the scanned tuples of one table.\<close>

fun vacuum_tuples ::
  "TxnID \<Rightarrow> (TxnID \<rightharpoonup> bool) \<Rightarrow> TableHeap \<Rightarrow> TupleWithRID list \<Rightarrow> BufferPool \<Rightarrow> nat \<Rightarrow>
   BufferPool \<times> (error + nat)" where
  "vacuum_tuples gxmin committedTxns th [] bp removed = (bp, Inr removed)"
| "vacuum_tuples gxmin committedTxns th (t # ts) bp removed =
     (if XMax (Tuple_of t) \<noteq> InvalidTxnID \<and> XMax (Tuple_of t) < gxmin \<and>
         IsTxnCommitted committedTxns (XMax (Tuple_of t))
      then
        (case TableHeap_Delete th bp (PageID_of t) (SlotNum_of t) of
           (bp1, Inl e) \<Rightarrow> (bp1, Inl e)
         | (bp1, Inr u) \<Rightarrow> vacuum_tuples gxmin committedTxns th ts bp1 (Suc removed))
      else vacuum_tuples gxmin committedTxns th ts bp removed)"

text \<open>The outer loop over the table names. A name without table id is skipped; a table id
  without heap is a nil dereference.\<close>

fun vacuum_tables ::
  "TxnID \<Rightarrow> (TxnID \<rightharpoonup> bool) \<Rightarrow> Catalog \<Rightarrow> string list \<Rightarrow> BufferPool \<Rightarrow>
   BufferPool \<times> (error + VacuumTableStats list)" where
  "vacuum_tables gxmin committedTxns c [] bp = (bp, Inr [])"
| "vacuum_tables gxmin committedTxns c (name # names) bp =
     (case map_of (tableIDs c) name of
        None \<Rightarrow> vacuum_tables gxmin committedTxns c names bp
      | Some tid \<Rightarrow>
          (case map_of (tableHeaps c) tid of
             None \<Rightarrow> (bp, Inl ErrPanic)
           | Some th \<Rightarrow>
               (case TableHeap_Scan th bp of
                  (bp1, Inl e) \<Rightarrow> (bp1, Inl e)
                | (bp1, Inr tuples) \<Rightarrow>
                    (case vacuum_tuples gxmin committedTxns th tuples bp1 0 of
                       (bp2, Inl e) \<Rightarrow> (bp2, Inl e)
                     | (bp2, Inr removed) \<Rightarrow>
                         (case vacuum_tables gxmin committedTxns c names bp2 of
                            (bp3, Inl e) \<Rightarrow> (bp3, Inl e)
                          | (bp3, Inr stats) \<Rightarrow>
                              (bp3, Inr (\<lparr>TableName = name, TuplesScanned = length tuples,
                                           TuplesRemoved = removed\<rparr> # stats)))))))"

definition Vacuum :: "Engine \<Rightarrow> Engine \<times> (error + VacuumTableStats list)" where
  "Vacuum e =
     (let gx = globalXmin (eng_txnManager e) in
      (case vacuum_tables gx (eng_committedTxns e) (eng_catalog e) (schemas (eng_catalog e))
              (eng_bufferPool e) of
         (bp1, Inl err) \<Rightarrow> (e\<lparr>eng_bufferPool := bp1\<rparr>, Inl err)
       | (bp1, Inr stats) \<Rightarrow>
           (e\<lparr>eng_bufferPool := FlushAllPages bp1,
              eng_committedTxns := PruneCommittedBefore (eng_committedTxns e) gx\<rparr>,
            Inr stats)))"




section \<open>Scenario: vacuum after a committed and a rolled-back DELETE\<close>

text \<open>After the auto-committed insert of \<open>row1\<close> (transaction 2): \<open>row2\<close> is inserted
  (transaction 3), \<open>row1\<close> is deleted and the delete committed (transaction 4), and \<open>row2\<close> is
  deleted inside an explicit transaction (5) that is rolled back. The commits are recorded
  in the known-committed set as the specification says.\<close>

definition before_vacuum :: "error + Engine" where
  "before_vacuum =
     (case after_insert of
        Inl e \<Rightarrow> Inl e
      | Inr e1 \<Rightarrow>
          let e2 = fst (executeInsert e1 row2);
              e3 = fst (executeDelete e2 (\<lambda>d. d ! 0 = 1));
              e4 = fst (executeBegin e3);
              e5 = fst (executeDelete e4 (\<lambda>d. d ! 0 = 21));
              e6 = fst (executeRollback e5)
          in Inr \<lparr>eng_catalog = \<lparr>schemas = [''t''], tableIDs = [(''t'', 1)],
                                  tableHeaps = [(1, heap e6)]\<rparr>,
                  eng_bufferPool = bufferPool e6,
                  eng_txnManager = txnManager e6,
                  eng_committedTxns = [2 \<mapsto> True, 3 \<mapsto> True, 4 \<mapsto> True]\<rparr>)"

text \<open>The xmin and xmax of the two tuples before the vacuum, the statistics the vacuum
  returns, and what reading the two slots gives after it.\<close>

definition heap_tuple :: "Engine \<Rightarrow> PageID \<Rightarrow> 16 word \<Rightarrow> error + (TxnID \<times> TxnID)" where
  "heap_tuple e pageID slotNum =
     (case map_of (tableHeaps (eng_catalog e)) 1 of
        None \<Rightarrow> Inl ErrPanic
      | Some th \<Rightarrow>
          (case snd (TableHeap_Get th (eng_bufferPool e) pageID slotNum) of
             Inl err \<Rightarrow> Inl err
           | Inr t \<Rightarrow> Inr (XMin t, XMax t)))"

definition vacuum_scenario where
  "vacuum_scenario =
     (case before_vacuum of
        Inl e \<Rightarrow> None
      | Inr e0 \<Rightarrow>
          (case Vacuum e0 of
             (e1, res) \<Rightarrow>
               Some (heap_tuple e0 0 0, heap_tuple e0 0 1, res, heap_tuple e1 0 0, heap_tuple e1 0 1)))"

section \<open>Concrete inputs for the redo and vacuum rules\<close>

text \<open>A recovery manager over a table of page-LSNs: the page-LSN callback reads the table,
  the redo callback stamps the record's LSN on the record's page.\<close>

definition read_lsn :: "PageID \<Rightarrow> (PageID \<Rightarrow> LSN) \<Rightarrow> LSN \<times> (PageID \<Rightarrow> LSN)" where
  "read_lsn pageID st = (st pageID, st)"

definition stamp_lsn :: "LogRecord \<Rightarrow> (PageID \<Rightarrow> LSN) \<Rightarrow> error + (PageID \<Rightarrow> LSN)" where
  "stamp_lsn r st = Inr (st(LogPageID r := LogLSN r))"

definition rm0 :: "(PageID \<Rightarrow> LSN) RecoveryManager" where
  "rm0 = \<lparr>dirtyPageTable = [(7, 2)], redoCallback = Some stamp_lsn, pageLSNCallback = Some read_lsn\<rparr>"

definition log_rec :: "LSN \<Rightarrow> LogRecordType \<Rightarrow> PageID \<Rightarrow> LogRecord" where
  "log_rec lsn ty pageID = empty_record\<lparr>LogLSN := lsn, LogTxnID := 2, LogType := ty, LogPageID := pageID\<rparr>"

definition log0 :: "LogRecord list" where
  "log0 = [log_rec 1 LogRecordBegin 0, log_rec 2 LogRecordInsert 7, log_rec 3 LogRecordUpdate 7,
           log_rec 4 LogRecordInsert 9, log_rec 5 LogRecordCommit 0]"



section \<open>Visibility algebra\<close>

lemma map_bool_get_active: "map_bool_get (ActiveTxns s) t \<longleftrightarrow> t \<in> active_set s"
  by (cases "ActiveTxns s t") (simp_all add: map_bool_get_def active_set_def)

text \<open>
  C1. A transaction id \<open>t\<close> is visible to a snapshot exactly when it is not 0, lies below
  the snapshot's xmax and is not in its active set; a tuple is visible exactly when its
  xmin is visible and its xmax is 0 or not visible. Both predicates are the ones
  \<^verbatim>\<open>isTxnVisible\<close> and \<^verbatim>\<open>Snapshot.IsVisible\<close> compute.
\<close>

theorem C1_visibility:
  "(isTxnVisible s t \<longleftrightarrow> t \<noteq> 0 \<and> t < Xmax s \<and> t \<notin> active_set s) \<and>
   (IsVisible s T \<longleftrightarrow>
      isTxnVisible s (XMin T) \<and> (XMax T = 0 \<or> \<not> isTxnVisible s (XMax T)))"
  by (auto simp: isTxnVisible_def IsVisible_def InvalidTxnID_def map_bool_get_active)

theorem C1_visibility_witness:
  "IsVisible \<lparr>Xmin = 5, Xmax = 10, ActiveTxns = [7 \<mapsto> True]\<rparr>
     \<lparr>XMin = 3, XMax = 7, Cid = 0, TableID = 1, RowID = 0, Data = []\<rparr> \<and>
   \<not> IsVisible \<lparr>Xmin = 5, Xmax = 10, ActiveTxns = [7 \<mapsto> True]\<rparr>
     \<lparr>XMin = 3, XMax = 4, Cid = 0, TableID = 1, RowID = 0, Data = []\<rparr>"
  using C1_visibility [of "\<lparr>Xmin = 5, Xmax = 10, ActiveTxns = [7 \<mapsto> True]\<rparr>" 3
      "\<lparr>XMin = 3, XMax = 7, Cid = 0, TableID = 1, RowID = 0, Data = []\<rparr>"]
    C1_visibility [of "\<lparr>Xmin = 5, Xmax = 10, ActiveTxns = [7 \<mapsto> True]\<rparr>" 7
      "\<lparr>XMin = 3, XMax = 4, Cid = 0, TableID = 1, RowID = 0, Data = []\<rparr>"]
    C1_visibility [of "\<lparr>Xmin = 5, Xmax = 10, ActiveTxns = [7 \<mapsto> True]\<rparr>" 4
      "\<lparr>XMin = 3, XMax = 4, Cid = 0, TableID = 1, RowID = 0, Data = []\<rparr>"]
  by (simp add: active_set_def)

section \<open>Order preservation of the integer key encoding\<close>














section \<open>Evaluation of the storage layer\<close>

text \<open>The definitions that concrete runs unfold. Evaluation is call-by-value: with
  \<open>let_weak_cong\<close> a \<open>let\<close> is opened only once its bound value is in normal form.\<close>

lemmas byte_defs = copy_at_def slice_def le16_def le32_def le64_def get_le16_def get_le32_def
  get_le64_def nth_append

lemmas page_defs = PageSize_def PageHeaderSize_def slotSize_def PageTypeData_def InvalidPageID_def
  init_def NewPage_def GetSlotCount_def setSlotCount_def GetFreeSpaceOffset_def GetFreeSpaceEnd_def
  setFreeSpaceEnd_def SetLSN_def GetLSN_def GetNextPageID_def SetNextPageID_def slotPos_def
  getSlot_def setSlot_def FreeSpace_def InsertTuple_def GetTuple_def UpdateTuple_def DeleteTuple_def
  GetAllTuples_def Page_Serialize_def Page_Deserialize_def Serialize_def DeserializeTuple_def

lemmas pool_defs = ReadPage_def WritePage_def AllocatePage_def NewBufferPool_def addToLRU_def
  touchLRU_def evictOne_def store_page_def FetchPage_def BufferPool_NewPage_def UnpinPage_def
  FlushPage_def FlushAllPages_def SetPageLSN_def GetPageLSN_def

lemmas heap_defs = NewTableHeap_def TableHeap_Insert_def TableHeap_Get_def TableHeap_Update_def
  TableHeap_Delete_def TableHeap_Scan_def

section \<open>The snapshot taken by Begin\<close>

lemma snapshot_loop_Xmax: "Xmax (snapshot_loop ids snap) = Xmax snap"
  by (induction ids arbitrary: snap) (simp_all add: Let_def)

lemma createSnapshotLocked_Xmax: "Xmax (createSnapshotLocked m) = nextTxnID m"
  by (simp add: createSnapshotLocked_def Let_def snapshot_loop_Xmax)

lemma Begin_TxID: "TxID (snd (Begin m)) = nextTxnID m + 1"
  by (simp add: Begin_def Let_def split: option.split prod.split)

lemma Begin_Snapshot:
  "Snapshot (snd (Begin m)) = createSnapshotLocked (m\<lparr>nextTxnID := nextTxnID m + 1\<rparr>)"
  by (simp add: Begin_def Let_def split: option.split prod.split)

lemma Begin_fresh_manager:
  "TxID (snd (Begin (NewManager None))) = 2 \<and>
   Xmax (Snapshot (snd (Begin (NewManager None)))) = 2 \<and>
   nextTxnID (fst (Begin (NewManager None))) = 2"
  by (simp add: Begin_def NewManager_def createSnapshotLocked_def updateGlobalXmin_def Let_def
      MaxTxnID_def)

text \<open>
  C6 (what the code does). For every manager state, the snapshot that \<^verbatim>\<open>Begin\<close> captures has
  xmax equal to the id of the transaction being begun, not to the id after it: the
  transaction's own id is not below its snapshot's xmax, and a tuple the transaction
  inserts (xmin its own id, xmax 0) is not visible to its own snapshot.
\<close>

theorem C6_own_id_equals_snapshot_xmax:
  "Xmax (Snapshot (snd (Begin m))) = TxID (snd (Begin m)) \<and>
   \<not> IsVisible (Snapshot (snd (Begin m))) (inserted_tuple (snd (Begin m)) tid data)"
  by (simp add: Begin_TxID Begin_Snapshot createSnapshotLocked_Xmax IsVisible_def isTxnVisible_def
      inserted_tuple_def)

section \<open>Insert on a fresh page\<close>

text \<open>
  C7 (what the code does). Inserting one byte into a freshly initialised page succeeds with
  slot 0 and moves free-space-end from 4096 to 4095, but free-space-begin stays at 28: it is
  not increased by 4.
\<close>

theorem C7_free_space_offset_not_advanced:
  "(case InsertTuple (NewPage 0 PageTypeData) [0x41] of
      Inl e \<Rightarrow> None
    | Inr (p, s) \<Rightarrow> Some (s, GetSlotCount p, GetFreeSpaceOffset p, GetFreeSpaceEnd p)) =
   Some (0, 1, 28, 4095) \<and>
   GetFreeSpaceOffset (NewPage 0 PageTypeData) = 28 \<and>
   GetFreeSpaceEnd (NewPage 0 PageTypeData) = 4096"
  by (simp add: byte_defs page_defs Let_def cong: let_weak_cong)

text \<open>
  C8 (what the code does). On a freshly initialised page, whose free space is 4064 bytes,
  inserting the 9 bytes "test data" returns slot 0, and reading slot 0 back returns
  "test " followed by the four bytes of the slot entry (offset 4087, length 9): the
  directory entry of slot 0 lies at bytes 4092..4095, inside the payload just written.
\<close>

theorem C8_payload_clobbered_by_slot_entry:
  "FreeSpace (NewPage 0 PageTypeData) = 4064 \<and>
   (case InsertTuple (NewPage 0 PageTypeData) [0x74, 0x65, 0x73, 0x74, 0x20, 0x64, 0x61, 0x74, 0x61] of
      Inl e \<Rightarrow> Inl e
    | Inr (p, s) \<Rightarrow> GetTuple p s) =
   Inr [0x74, 0x65, 0x73, 0x74, 0x20, 0xF7, 0x0F, 0x09, 0x00]"
  by (simp add: byte_defs page_defs Let_def cong: let_weak_cong)

section \<open>The page chain of a table heap\<close>

text \<open>
  C9 (what the code does). After table 1's second large insert has hit a full page 0, the
  heap's last page is the new page 2, but page 0's next-page-id is still InvalidPageID: the
  pages are not linked. A scan of table 1 walks the page ids 0, 1, 2 and so also returns
  the tuple of table 2 stored on page 1.
\<close>

theorem C9_pages_not_linked_scan_by_increment:
  "chain_scenario =
     Inr (\<lparr>tableID = 1, firstPage = 0, lastPage = 2\<rparr>, (0, 0), (2, 0), Some InvalidPageID,
          [(0, 1), (1, 2), (2, 1)])"
  by (simp add: chain_scenario_def bp0_def big_tuple_def small_tuple_def byte_defs page_defs
      pool_defs heap_defs Let_def cong: let_weak_cong)

section \<open>Evaluation of the log, the transactions and the statements\<close>

lemmas wal_defs = NewWriter_def buffer_len_def flushLocked_def Append_def Force_def Flush_def
  empty_record_def LogBegin_def LogCommit_def LogAbort_def LogInsert_def Serialize_len_def
  logRecordHeaderSize_def walBufferSize_def

lemmas txn_defs = NewManager_def createSnapshotLocked_def updateGlobalXmin_def Begin_def Commit_def
  Rollback_def NextCommandID_def MaxTxnID_def InvalidTxnID_def InvalidLSN_def IsVisible_def
  isTxnVisible_def map_bool_get_def

lemmas exec_defs = getTransaction_def log_statement_def row_id_def finish_statement_def
  next_command_def executeInsert_def executeUpdate_def executeDelete_def executeBegin_def
  executeRollback_def

lemmas scen_defs = after_insert_def executor0_def bp0_def row1_def row2_def xmin_xmax_def
  on_disk_def observe_def

lemma slot_two_not_le_one: "((2::16 word) \<le> 1) = False"
  by (simp add: word_le_nat_alt)

lemma upt_two: "[0..<2] = [0, 1]"
  by (simp add: numeral_2_eq_2)

section \<open>The WAL rule at the buffer pool\<close>

text \<open>
  C3 (what the code does). A page tagged with the LSN of a log record that is still in the
  WAL buffer (record LSN 1, flushed-LSN 0) is written to disk with page-LSN 1 both by an
  explicit \<^verbatim>\<open>FlushPage\<close> and by an eviction: the buffer pool writes a dirty page without
  forcing, or looking at, the log. And in the executor, \<^verbatim>\<open>COMMIT\<close> after an \<^verbatim>\<open>INSERT\<close> flushes
  the page with the new tuple (xmin 2, xmax 0) to disk while the transaction's two log
  records are in the WAL buffer, the WAL file is empty and the flushed-LSN is 0.
\<close>

theorem C3_page_written_ahead_of_log:
  "flush_scenario = Inr (1, 0, Some 1) \<and> evict_scenario = Inr (1, 0, Some 1) \<and>
   commit_flush_scenario = Some (Some (2, 0), Some (2, 0, 0))"
  by (simp add: flush_scenario_def evict_scenario_def commit_flush_scenario_def disk_lsn_def
      scen_defs exec_defs txn_defs wal_defs byte_defs page_defs pool_defs heap_defs Let_def
      slot_two_not_le_one cong: let_weak_cong)

section \<open>UPDATE at the heap level\<close>


section \<open>The redo rule\<close>

lemma min_recLSN_le_acc: "min_recLSN dpt acc \<le> acc"
proof (induction dpt arbitrary: acc)
  case Nil
  show ?case by simp
next
  case (Cons a dpt)
  obtain p l where a: "a = (p, l)" by (cases a)
  have "min_recLSN dpt (if l < acc then l else acc) \<le> (if l < acc then l else acc)"
    by (rule Cons.IH)
  then show ?case unfolding a by (auto split: if_splits)
qed

lemma min_recLSN_le_entry:
  "map_of dpt p = Some l \<Longrightarrow> min_recLSN dpt acc \<le> l"
proof (induction dpt arbitrary: acc)
  case Nil
  then show ?case by simp
next
  case (Cons a dpt)
  obtain p' l' where a: "a = (p', l')" by (cases a)
  show ?case
  proof (cases "p' = p")
    case True
    with Cons.prems a have "l' = l" by simp
    moreover have "min_recLSN dpt (if l' < acc then l' else acc) \<le> (if l' < acc then l' else acc)"
      by (rule min_recLSN_le_acc)
    ultimately show ?thesis unfolding a by (auto split: if_splits)
  next
    case False
    with Cons.prems a have "map_of dpt p = Some l" by simp
    then show ?thesis unfolding a using Cons.IH by simp
  qed
qed

text \<open>The scan's start at the smallest rec-LSN skips no record of a page in the dirty page
  table whose LSN has reached the page's rec-LSN.\<close>

lemma below_min_not_in_dpt:
  "LogLSN r < min_recLSN dpt acc \<Longrightarrow> \<not> in_dpt_from dpt r"
proof
  assume lt: "LogLSN r < min_recLSN dpt acc" and "in_dpt_from dpt r"
  then obtain recLSN where m: "map_of dpt (LogPageID r) = Some recLSN" and le: "recLSN \<le> LogLSN r"
    by (auto simp: in_dpt_from_def split: option.splits)
  from m have "min_recLSN dpt acc \<le> recLSN" by (rule min_recLSN_le_entry)
  with le lt show False by simp
qed

lemma redo_loop_refines:
  assumes "pageLSNCallback rm = Some plsn" and "redoCallback rm = Some redo"
  shows "redo_loop rm (min_recLSN (dirtyPageTable rm) acc) records st =
         redo_spec (dirtyPageTable rm) plsn redo records st"
proof (induction records arbitrary: st)
  case Nil
  show ?case by simp
next
  case (Cons r rs)
  show ?case
  proof (cases "LogLSN r < min_recLSN (dirtyPageTable rm) acc")
    case True
    then have "\<not> in_dpt_from (dirtyPageTable rm) r" by (rule below_min_not_in_dpt)
    with True Cons.IH show ?thesis by simp
  next
    case False
    show ?thesis
    proof (cases "is_data_record r \<and> in_dpt_from (dirtyPageTable rm) r")
      case False
      with \<open>\<not> LogLSN r < min_recLSN (dirtyPageTable rm) acc\<close> Cons.IH show ?thesis
        by (auto simp: in_dpt_from_def split: option.splits)
    next
      case True
      then obtain recLSN where m: "map_of (dirtyPageTable rm) (LogPageID r) = Some recLSN"
        and le: "recLSN \<le> LogLSN r"
        by (auto simp: in_dpt_from_def split: option.splits)
      obtain pageLSN st1 where cb: "plsn (LogPageID r) st = (pageLSN, st1)"
        by (cases "plsn (LogPageID r) st")
      show ?thesis
        using True False m le cb assms Cons.IH
        by (auto simp: redo_conditions_def not_le not_less split: sum.splits prod.splits)
    qed
  qed
qed

lemma redo_spec_empty_dpt: "redo_spec [] plsn redo records st = ([], Inr st)"
  by (induction records arbitrary: st) (simp_all add: in_dpt_from_def)

lemma redoPhase_refines:
  assumes "pageLSNCallback rm = Some plsn" and "redoCallback rm = Some redo"
  shows "redoPhase rm (Inr records) st = redo_spec (dirtyPageTable rm) plsn redo records st"
proof (cases "dirtyPageTable rm")
  case Nil
  then show ?thesis by (simp add: redoPhase_def redo_spec_empty_dpt)
next
  case (Cons a list)
  then show ?thesis
    using redo_loop_refines [OF assms, of "- 1" records st] by (simp add: redoPhase_def)
qed

lemma redo_spec_single:
  "fst (redo_spec dpt plsn redo [r] st) = [r] \<longleftrightarrow>
   is_data_record r \<and> redo_conditions dpt (fst (plsn (LogPageID r) st)) r"
  by (auto simp: redo_conditions_def split: prod.splits sum.splits)

text \<open>Records whose pages already carry their LSN are all skipped: a run of redo over a
  log that has been applied invokes the callback on no record.\<close>

lemma redo_spec_applied:
  "(\<And>r st. r \<in> set records \<Longrightarrow> LogLSN r \<le> fst (plsn (LogPageID r) st)) \<Longrightarrow>
   fst (redo_spec dpt plsn redo records st) = []"
proof (induction records arbitrary: st)
  case Nil
  show ?case by simp
next
  case (Cons r rs)
  have "LogLSN r \<le> fst (plsn (LogPageID r) st)" by (rule Cons.prems) simp
  moreover have "\<And>st. fst (redo_spec dpt plsn redo rs st) = []"
    by (rule Cons.IH) (simp add: Cons.prems)
  ultimately show ?case
    by (auto simp: redo_conditions_def split: prod.splits)
qed

lemma redoPhase_applied_log:
  assumes "pageLSNCallback rm = Some plsn" and "redoCallback rm = Some redo"
    and "\<And>r st. r \<in> set records \<Longrightarrow> LogLSN r \<le> fst (plsn (LogPageID r) st)"
  shows "fst (redoPhase rm (Inr records) st) = []"
  by (simp only: redoPhase_refines [OF assms(1,2)] redo_spec_applied [OF assms(3)])

text \<open>
  C2. With both callbacks set, the redo phase over a log is the redo rule of the
  specification: the list of records the callback is invoked on, and the state or error
  reached, are those of \<open>redo_spec\<close>, which applies a record exactly when it is
  data-mutating, its page is in the dirty page table with rec-LSN at most the record's LSN,
  and the record's LSN is above the page-LSN the callback reports at that moment. In
  particular, for a log of one record the callback is invoked iff the three conditions
  hold.
\<close>

theorem C2_redo_iff_three_conditions:
  assumes "pageLSNCallback rm = Some plsn" and "redoCallback rm = Some redo"
  shows "redoPhase rm (Inr records) st = redo_spec (dirtyPageTable rm) plsn redo records st \<and>
         (fst (redoPhase rm (Inr [r]) st) = [r] \<longleftrightarrow>
            is_data_record r \<and>
            redo_conditions (dirtyPageTable rm) (fst (plsn (LogPageID r) st)) r)"
  by (simp only: redoPhase_refines [OF assms] redo_spec_single simp_thms)

lemmas redo_scen_defs = rm0_def log0_def log_rec_def empty_record_def read_lsn_def stamp_lsn_def
  is_data_record_def in_dpt_from_def redo_conditions_def

theorem C2_redo_witness:
  "fst (redoPhase rm0 (Inr log0) ((\<lambda>p. 0)(7 := 2))) = [log_rec 3 LogRecordUpdate 7] \<and>
   fst (redoPhase rm0 (Inr [log_rec 3 LogRecordUpdate 7]) ((\<lambda>p. 0)(7 := 2))) =
     [log_rec 3 LogRecordUpdate 7] \<and>
   fst (redoPhase rm0 (Inr [log_rec 3 LogRecordUpdate 7]) ((\<lambda>p. 0)(7 := 3))) = []"
proof -
  have cb: "pageLSNCallback rm0 = Some read_lsn" "redoCallback rm0 = Some stamp_lsn"
    by (simp_all add: rm0_def)
  have 1: "fst (redoPhase rm0 (Inr log0) ((\<lambda>p. 0)(7 := 2))) = [log_rec 3 LogRecordUpdate 7]"
    using C2_redo_iff_three_conditions [OF cb, of log0 "(\<lambda>p. 0)(7 := 2)"]
    by (simp add: redo_scen_defs)
  have 2: "fst (redoPhase rm0 (Inr [log_rec 3 LogRecordUpdate 7]) ((\<lambda>p. 0)(7 := 2))) =
      [log_rec 3 LogRecordUpdate 7]"
    using C2_redo_iff_three_conditions [OF cb, of "[]" "(\<lambda>p. 0)(7 := 2)" "log_rec 3 LogRecordUpdate 7"]
    by (simp add: redo_scen_defs)
  have 3: "fst (redoPhase rm0 (Inr [log_rec 3 LogRecordUpdate 7]) ((\<lambda>p. 0)(7 := 3))) = []"
    using C2_redo_iff_three_conditions [OF cb, of "[log_rec 3 LogRecordUpdate 7]" "(\<lambda>p. 0)(7 := 3)"]
    by (simp add: redo_scen_defs)
  from 1 2 3 show ?thesis by simp
qed

section \<open>The vacuum rule\<close>




text \<open>The whole stack on the scenario: before the vacuum both tuples carry an xmax (4,
  committed; 5, rolled back); the vacuum scans 2 tuples and removes 1; afterwards slot 0 is
  a tombstone and slot 1 is unchanged.\<close>

lemma vacuum_scenario_result:
  "vacuum_scenario =
     Some (Inr (2, 4), Inr (3, 5),
           Inr [\<lparr>TableName = ''t'', TuplesScanned = 2, TuplesRemoved = 1\<rparr>],
           Inl ErrSlotNotFound, Inr (3, 5))"
  by (simp add: vacuum_scenario_def before_vacuum_def heap_tuple_def Vacuum_def
      IsTxnCommitted_def PruneCommittedBefore_def scen_defs exec_defs txn_defs wal_defs byte_defs
      page_defs pool_defs heap_defs Let_def slot_two_not_le_one upt_two cong: let_weak_cong)



end
